theory Spec2Isabelle
  imports Complex_Main
begin

section \<open>Neon Drift (game 101): the simulation core of script.js\<close>

text \<open>
  The model follows \<^verbatim>\<open>src/game-101-capstone/script.js\<close>. The global \<^verbatim>\<open>state\<close>
  object is a record that every function takes and returns. JavaScript numbers are
  modelled as \<^typ>\<open>real\<close> (exact arithmetic, no rounding, no NaN); the counters that
  the script only ever changes by whole numbers (level, score, lives, combo, nextLevelAt)
  are \<^typ>\<open>int\<close>. \<^verbatim>\<open>Math.random()\<close> reads the next element of an explicit stream of
  draws, and \<^verbatim>\<open>performance.now()\<close> and the animation-frame timestamp are parameters.
  The DOM, the audio beeps, the screen-reader announcements, the HUD text throttles
  (\<^verbatim>\<open>state.ui\<close>) and the animation-frame handle (\<^verbatim>\<open>time.rafId\<close>) are output only
  and are left out; \<^verbatim>\<open>localStorage\<close> appears as the value read at start-up.
  Field names carry a prefix where two objects of the script share a name
  (\<^verbatim>\<open>player.x\<close> is \<open>p_x\<close>, \<^verbatim>\<open>enemy.x\<close> is \<open>e_x\<close>, \<^verbatim>\<open>bounds.w\<close> is \<open>b_w\<close>,
  \<^verbatim>\<open>input.dash\<close> is \<open>i_dash\<close>).
\<close>

subsection \<open>State\<close>

datatype game_phase = Start | Play | Pause | Settings | Over | How

datatype enemy_type = Normal | Fast | Heavy

record playfield_bounds =
  b_w :: real
  b_h :: real

record dash_state =
  ready :: bool
  cooldownMs :: real
  burst :: real
  lastDashAt :: real

record player_state =
  p_x :: real
  p_y :: real
  p_vx :: real
  p_vy :: real
  p_size :: real
  speed :: real
  maxSpeed :: real
  friction :: real
  p_dash :: dash_state

record orb_state =
  o_x :: real
  o_y :: real
  o_size :: real

record enemy =
  active :: bool
  e_x :: real
  e_y :: real
  e_vx :: real
  e_vy :: real
  e_size :: real
  e_type :: enemy_type

record difficulty_state =
  level :: int
  score :: int
  lives :: int
  combo :: int
  best :: real
  spawnIntervalMs :: real
  lastSpawnAt :: real
  enemyBaseSpeed :: real
  nextLevelAt :: int

record input_intent =
  up :: bool
  down :: bool
  left :: bool
  right :: bool
  i_dash :: bool
  mouseX :: real
  mouseY :: real
  hasMouse :: bool

record settings_state =
  sound :: bool
  reducedMotion :: bool
  mouseFollow :: bool

record time_state =
  lastFrame :: real

record state =
  phase :: game_phase
  running :: bool
  bounds :: playfield_bounds
  player :: player_state
  orb :: orb_state
  enemies :: "enemy list"
  enemyPoolSize :: nat
  difficulty :: difficulty_state
  input :: input_intent
  settings :: settings_state
  time :: time_state

text \<open>The object literal \<^verbatim>\<open>const state = {...}\<close> (lines 117--204).\<close>

definition state0 :: state where
  "state0 =
    \<lparr> phase = Start, running = False,
      bounds = \<lparr> b_w = 0, b_h = 0 \<rparr>,
      player = \<lparr> p_x = 200, p_y = 200, p_vx = 0, p_vy = 0, p_size = 24,
                 speed = 0.55, maxSpeed = 5.2, friction = 0.88,
                 p_dash = \<lparr> ready = True, cooldownMs = 900, burst = 9.0, lastDashAt = 0 \<rparr> \<rparr>,
      orb = \<lparr> o_x = 320, o_y = 180, o_size = 18 \<rparr>,
      enemies = [],
      enemyPoolSize = 22,
      difficulty = \<lparr> level = 1, score = 0, lives = 3, combo = 0, best = 0,
                     spawnIntervalMs = 950, lastSpawnAt = 0, enemyBaseSpeed = 1.7,
                     nextLevelAt = 200 \<rparr>,
      input = \<lparr> up = False, down = False, left = False, right = False, i_dash = False,
                mouseX = 0, mouseY = 0, hasMouse = False \<rparr>,
      settings = \<lparr> sound = True, reducedMotion = False, mouseFollow = False \<rparr>,
      time = \<lparr> lastFrame = 0 \<rparr> \<rparr>"

subsection \<open>Random draws\<close>

text \<open>
  A stream of the values that successive calls of \<^verbatim>\<open>Math.random()\<close> return.
  \<open>random\<close> reads the head and hands back the rest.
\<close>

type_synonym rng = "nat \<Rightarrow> real"

definition random :: "rng \<Rightarrow> real \<times> rng" where
  "random r = (r 0, \<lambda>n. r (Suc n))"

definition rand :: "real \<Rightarrow> real \<Rightarrow> rng \<Rightarrow> real \<times> rng" where
  "rand lo hi r = (case random r of (u, r') \<Rightarrow> (u * (hi - lo) + lo, r'))"

subsection \<open>Utilities\<close>

definition clamp :: "real \<Rightarrow> real \<Rightarrow> real \<Rightarrow> real" where
  "clamp v lo hi = max lo (min hi v)"

definition distSq :: "real \<Rightarrow> real \<Rightarrow> real \<Rightarrow> real \<Rightarrow> real" where
  "distSq ax ay bx by = (ax - bx) * (ax - bx) + (ay - by) * (ay - by)"

definition aabbCollide :: "real \<Rightarrow> real \<Rightarrow> real \<Rightarrow> real \<Rightarrow> real \<Rightarrow> real \<Rightarrow> bool" where
  "aabbCollide ax ay as bx by bs =
     (\<not> (ax + as < bx \<or> ax > bx + bs \<or> ay + as < by \<or> ay > by + bs))"

subsection \<open>The enemy pool\<close>

definition inactive_enemy :: enemy where
  "inactive_enemy =
     \<lparr> active = False, e_x = -999, e_y = -999, e_vx = 0, e_vy = 0, e_size = 18,
       e_type = Normal \<rparr>"

definition initEnemyPool :: "state \<Rightarrow> state" where
  "initEnemyPool s = s\<lparr> enemies := replicate (enemyPoolSize s) inactive_enemy \<rparr>"

text \<open>
  \<^verbatim>\<open>state.enemies.find(e => !e.active)\<close>: the position of the first inactive slot,
  \<open>None\<close> when the array has none (\<^verbatim>\<open>find\<close> returns \<^verbatim>\<open>undefined\<close>).
\<close>

fun find_inactive :: "enemy list \<Rightarrow> nat option" where
  "find_inactive [] = None"
| "find_inactive (e # es) =
     (if \<not> active e then Some 0 else map_option Suc (find_inactive es))"

definition num_active :: "enemy list \<Rightarrow> nat" where
  "num_active es = length (filter active es)"

subsection \<open>Orb placement\<close>

definition placeOrb_fallback :: "state \<Rightarrow> state" where
  "placeOrb_fallback s =
     (let margin = 24; bw = b_w (bounds s); bh = b_h (bounds s); p = player s
      in s\<lparr> orb := (orb s)\<lparr> o_x := clamp (p_x p + 150) margin (bw - margin),
                              o_y := clamp (p_y p + 80) margin (bh - margin) \<rparr> \<rparr>)"

text \<open>The \<^verbatim>\<open>while (tries < 50)\<close> loop; the first argument is \<^verbatim>\<open>50 - tries\<close>.\<close>

fun placeOrb_loop :: "nat \<Rightarrow> state \<Rightarrow> rng \<Rightarrow> state \<times> rng" where
  "placeOrb_loop 0 s r = (placeOrb_fallback s, r)"
| "placeOrb_loop (Suc k) s r =
     (let margin = 24; minDist = 130; p = player s in
      case rand margin (b_w (bounds s) - margin) r of (x, r1) \<Rightarrow>
      case rand margin (b_h (bounds s) - margin) r1 of (y, r2) \<Rightarrow>
        if distSq x y (p_x p) (p_y p) \<ge> minDist * minDist
        then (s\<lparr> orb := (orb s)\<lparr> o_x := x, o_y := y \<rparr> \<rparr>, r2)
        else placeOrb_loop k s r2)"

definition placeOrb :: "state \<Rightarrow> rng \<Rightarrow> state \<times> rng" where
  "placeOrb s r = placeOrb_loop 50 s r"

subsection \<open>Difficulty scaling\<close>

definition scaleDifficultyOnScore :: "state \<Rightarrow> state" where
  "scaleDifficultyOnScore s =
     (let d = difficulty s in
      if score d \<ge> nextLevelAt d
      then s\<lparr> difficulty := d\<lparr> level := level d + 1,
                                nextLevelAt := \<lfloor>real_of_int (nextLevelAt d) * 1.35 + 120\<rfloor>,
                                enemyBaseSpeed := min 4.2 (enemyBaseSpeed d + 0.15),
                                spawnIntervalMs := max 420 (spawnIntervalMs d - 40) \<rparr> \<rparr>
      else s)"

subsection \<open>Enemy spawning\<close>

text \<open>Lines 334--337: one draw \<^verbatim>\<open>roll\<close>, then the two \<^verbatim>\<open>if\<close> statements in order.\<close>

definition chooseType :: "int \<Rightarrow> real \<Rightarrow> enemy_type" where
  "chooseType lvl roll =
     (let t0 = Normal;
          t1 = (if lvl \<ge> 4 \<and> roll < 0.25 then Fast else t0);
          t2 = (if lvl \<ge> 6 \<and> roll > 0.86 then Heavy else t1)
      in t2)"

text \<open>
  Lines 345--349: the edge is \<^verbatim>\<open>Math.floor(rand(0, 4))\<close>; each of the four \<^verbatim>\<open>if\<close>
  statements draws one more number in its own branch only. An edge outside 0..3 leaves
  the slot's old position.
\<close>

definition spawnPosition :: "real \<Rightarrow> real \<Rightarrow> enemy \<Rightarrow> rng \<Rightarrow> (real \<times> real) \<times> rng" where
  "spawnPosition bw bh e r =
     (let margin = 20 in
      case rand 0 4 r of (u, r1) \<Rightarrow>
        let edge = \<lfloor>u\<rfloor> in
        if edge = 0 then (case rand margin (bw - margin) r1 of (x, r2) \<Rightarrow> ((x, - margin), r2))
        else if edge = 1 then (case rand margin (bh - margin) r1 of (y, r2) \<Rightarrow> ((bw + margin, y), r2))
        else if edge = 2 then (case rand margin (bw - margin) r1 of (x, r2) \<Rightarrow> ((x, bh + margin), r2))
        else if edge = 3 then (case rand margin (bh - margin) r1 of (y, r2) \<Rightarrow> ((- margin, y), r2))
        else ((e_x e, e_y e), r1))"

definition spawnEnemy :: "real \<Rightarrow> state \<Rightarrow> rng \<Rightarrow> state \<times> rng" where
  "spawnEnemy now s r =
     (let d = difficulty s in
      case find_inactive (enemies s) of
        None \<Rightarrow> (s, r)
      | Some k \<Rightarrow>
          let e = enemies s ! k in
          case random r of (roll, r1) \<Rightarrow>
          let ty = chooseType (level d) roll;
              sz = (if ty = Heavy then 24 else 18) in
          case spawnPosition (b_w (bounds s)) (b_h (bounds s)) e r1 of ((x, y), r2) \<Rightarrow>
          let p = player s;
              dx = p_x p - x;
              dy = p_y p - y;
              len = max 0.001 (sqrt (dx * dx + dy * dy)) in
          case rand (-0.2) 0.2 r2 of (jitter, r3) \<Rightarrow>
          let sp0 = enemyBaseSpeed d + jitter;
              sp1 = (if ty = Fast then sp0 * 1.35 else sp0);
              sp2 = (if ty = Heavy then sp1 * 0.85 else sp1);
              e' = e\<lparr> e_type := ty, e_size := sz, e_x := x, e_y := y,
                      e_vx := (dx / len) * sp2, e_vy := (dy / len) * sp2, active := True \<rparr>
          in (s\<lparr> enemies := (enemies s)[k := e'],
                  difficulty := d\<lparr> lastSpawnAt := now \<rparr> \<rparr>, r3))"

definition spawnDue :: "real \<Rightarrow> state \<Rightarrow> bool" where
  "spawnDue now s = (now - lastSpawnAt (difficulty s) \<ge> spawnIntervalMs (difficulty s))"

definition maybeSpawnEnemies :: "real \<Rightarrow> state \<Rightarrow> rng \<Rightarrow> state \<times> rng" where
  "maybeSpawnEnemies now s r =
     (if spawnDue now s then
        case spawnEnemy now s r of (s1, r1) \<Rightarrow>
        case (if level (difficulty s1) \<ge> 7
              then (case random r1 of (u, r2) \<Rightarrow>
                      if u < 0.30 then spawnEnemy now s1 r2 else (s1, r2))
              else (s1, r1)) of (s2, r3) \<Rightarrow>
        if level (difficulty s2) \<ge> 10
        then (case random r3 of (u, r4) \<Rightarrow>
                if u < 0.18 then spawnEnemy now s2 r4 else (s2, r4))
        else (s2, r3)
      else (s, r))"

subsection \<open>Overlay screens and game over\<close>

text \<open>\<^verbatim>\<open>showOverlayScreen\<close> changes the DOM and clears \<^verbatim>\<open>state.running\<close>;
  \<^verbatim>\<open>hideOverlay\<close> changes the DOM only.\<close>

definition showOverlayScreen :: "state \<Rightarrow> state" where
  "showOverlayScreen s = s\<lparr> running := False \<rparr>"

definition endGame :: "state \<Rightarrow> state" where
  "endGame s =
     (let s1 = s\<lparr> phase := Over, running := False \<rparr>;
          d = difficulty s1;
          wasNewBest = (real_of_int (score d) > best d);
          s2 = (if wasNewBest then s1\<lparr> difficulty := d\<lparr> best := real_of_int (score d) \<rparr> \<rparr>
                else s1)
      in showOverlayScreen s2)"

subsection \<open>Per-frame systems\<close>

text \<open>Lines 634--651 of \<^verbatim>\<open>updatePlayer\<close>: the acceleration \<^verbatim>\<open>(ax, ay)\<close>.\<close>

definition playerAccel :: "state \<Rightarrow> real \<times> real" where
  "playerAccel s =
     (let p = player s; i = input s in
      if mouseFollow (settings s) \<and> hasMouse i then
        (let dx = mouseX i - p_x p;
             dy = mouseY i - p_y p;
             len = max 0.001 (sqrt (dx * dx + dy * dy))
         in ((dx / len) * speed p, (dy / len) * speed p))
      else
        (let ax0 = 0;
             ay0 = 0;
             ax1 = (if left i then ax0 - speed p else ax0);
             ax2 = (if right i then ax1 + speed p else ax1);
             ay1 = (if up i then ay0 - speed p else ay0);
             ay2 = (if down i then ay1 + speed p else ay1)
         in (ax2, ay2)))"

text \<open>Lines 659--677: the dash. \<^verbatim>\<open>p.vx || 0.001\<close> replaces a zero by 0.001.\<close>

definition dashStep :: "real \<Rightarrow> state \<Rightarrow> state" where
  "dashStep now s =
     (if i_dash (input s) then
        (let s1 = s\<lparr> input := (input s)\<lparr> i_dash := False \<rparr> \<rparr>;
             p = player s1;
             canDash = (now - lastDashAt (p_dash p) \<ge> cooldownMs (p_dash p))
         in if canDash then
              (let dx = (if p_vx p = 0 then 0.001 else p_vx p);
                   dy = (if p_vy p = 0 then 0.001 else p_vy p);
                   len = max 0.001 (sqrt (dx * dx + dy * dy))
               in s1\<lparr> player := p\<lparr> p_vx := (dx / len) * burst (p_dash p),
                                     p_vy := (dy / len) * burst (p_dash p),
                                     p_dash := (p_dash p)\<lparr> lastDashAt := now \<rparr> \<rparr> \<rparr>)
            else s1)
      else s)"

definition updatePlayer :: "real \<Rightarrow> real \<Rightarrow> state \<Rightarrow> state" where
  "updatePlayer dt now s =
     (case playerAccel s of (ax, ay) \<Rightarrow>
      let scale = dt / 16.67;
          p0 = player s;
          s1 = s\<lparr> player := p0\<lparr> p_vx := p_vx p0 + ax * scale,
                                 p_vy := p_vy p0 + ay * scale \<rparr> \<rparr>;
          s2 = dashStep now s1;
          p = player s2;
          vx1 = p_vx p * friction p;
          vy1 = p_vy p * friction p;
          vx2 = clamp vx1 (- maxSpeed p) (maxSpeed p);
          vy2 = clamp vy1 (- maxSpeed p) (maxSpeed p);
          x1 = p_x p + vx2 * scale;
          y1 = p_y p + vy2 * scale;
          margin = 2;
          x2 = clamp x1 margin (b_w (bounds s2) - p_size p - margin);
          y2 = clamp y1 margin (b_h (bounds s2) - p_size p - margin)
      in s2\<lparr> player := p\<lparr> p_vx := vx2, p_vy := vy2, p_x := x2, p_y := y2 \<rparr> \<rparr>)"

text \<open>The body of the \<^verbatim>\<open>for\<close> loop of \<^verbatim>\<open>updateEnemies\<close>, for one slot.\<close>

definition updateEnemy :: "real \<Rightarrow> real \<Rightarrow> real \<Rightarrow> enemy \<Rightarrow> enemy" where
  "updateEnemy scale bw bh e =
     (if \<not> active e then e
      else
        (let x = e_x e + e_vx e * scale;
             y = e_y e + e_vy e * scale;
             pad = 60
         in if x < - pad \<or> x > bw + pad \<or> y < - pad \<or> y > bh + pad
            then e\<lparr> e_x := -999, e_y := -999, active := False \<rparr>
            else e\<lparr> e_x := x, e_y := y \<rparr>))"

definition updateEnemies :: "real \<Rightarrow> state \<Rightarrow> state" where
  "updateEnemies dt s =
     s\<lparr> enemies := map (updateEnemy (dt / 16.67) (b_w (bounds s)) (b_h (bounds s))) (enemies s) \<rparr>"

definition resolveOrbCollection :: "state \<Rightarrow> rng \<Rightarrow> state \<times> rng" where
  "resolveOrbCollection s r =
     (let p = player s; ob = orb s; d = difficulty s in
      if aabbCollide (p_x p) (p_y p) (p_size p) (o_x ob) (o_y ob) (o_size ob) then
        (let d1 = d\<lparr> combo := combo d + 1 \<rparr>;
             gained = 20 + min 30 (combo d1 * 2);
             d2 = d1\<lparr> score := score d1 + gained \<rparr>
         in placeOrb (s\<lparr> difficulty := d2 \<rparr>) r)
      else (s, r))"

text \<open>
  The \<^verbatim>\<open>for\<close> loop of \<^verbatim>\<open>resolveEnemyCollisions\<close> up to its \<^verbatim>\<open>return\<close>: the position
  of the first slot, in pool order, that is active and overlaps the player; \<open>None\<close>
  when the loop runs to its end.
\<close>

fun firstHit :: "player_state \<Rightarrow> enemy list \<Rightarrow> nat option" where
  "firstHit p [] = None"
| "firstHit p (e # es) =
     (if \<not> active e then map_option Suc (firstHit p es)
      else if aabbCollide (p_x p) (p_y p) (p_size p) (e_x e) (e_y e) (e_size e) then Some 0
      else map_option Suc (firstHit p es))"

definition resolveEnemyCollisions :: "state \<Rightarrow> state" where
  "resolveEnemyCollisions s =
     (case firstHit (player s) (enemies s) of
        None \<Rightarrow> s
      | Some k \<Rightarrow>
          (let d = difficulty s;
               s1 = s\<lparr> enemies := (enemies s)[k := (enemies s ! k)\<lparr> active := False \<rparr>],
                       difficulty := d\<lparr> lives := lives d - 1, combo := 0 \<rparr> \<rparr>;
               p = player s1;
               s2 = (if \<not> reducedMotion (settings s1)
                     then s1\<lparr> player := p\<lparr> p_vx := p_vx p * (-0.7), p_vy := p_vy p * (-0.7) \<rparr> \<rparr>
                     else s1)
           in if lives (difficulty s2) \<le> 0 then endGame s2 else s2))"

subsection \<open>Game lifecycle\<close>

definition resetEnemy :: "enemy \<Rightarrow> enemy" where
  "resetEnemy e = e\<lparr> active := False, e_x := -999, e_y := -999, e_vx := 0, e_vy := 0 \<rparr>"

definition resetRunState :: "state \<Rightarrow> rng \<Rightarrow> state \<times> rng" where
  "resetRunState s r =
     (let d = difficulty s; p = player s;
          d1 = d\<lparr> score := 0, lives := 3, combo := 0, level := 1, enemyBaseSpeed := 1.7,
                  spawnIntervalMs := 950, lastSpawnAt := 0, nextLevelAt := 200 \<rparr>;
          p1 = p\<lparr> p_x := b_w (bounds s) / 2, p_y := b_h (bounds s) / 2, p_vx := 0, p_vy := 0,
                  p_dash := (p_dash p)\<lparr> ready := True, lastDashAt := 0 \<rparr> \<rparr>
      in placeOrb (s\<lparr> difficulty := d1, player := p1, enemies := map resetEnemy (enemies s) \<rparr>) r)"

text \<open>
  The elapsed time that \<^verbatim>\<open>loop(now)\<close> computes (lines 836--837):
  \<^verbatim>\<open>t.lastFrame || now\<close> is \<^verbatim>\<open>now\<close> when \<^verbatim>\<open>lastFrame\<close> is 0.
\<close>

definition frameDt :: "real \<Rightarrow> state \<Rightarrow> real" where
  "frameDt now s =
     (let last = (if lastFrame (time s) = 0 then now else lastFrame (time s))
      in clamp (now - last) 0 40)"

text \<open>One call of \<^verbatim>\<open>loop(now)\<close>: one frame. Scheduling the next frame is the caller's.\<close>

definition loop :: "real \<Rightarrow> state \<Rightarrow> rng \<Rightarrow> state \<times> rng" where
  "loop now s r =
     (if phase s \<noteq> Play \<or> \<not> running s then (s, r)
      else
        (let dt = frameDt now s;
             s1 = s\<lparr> time := (time s)\<lparr> lastFrame := now \<rparr> \<rparr>;
             s2 = updatePlayer dt now s1
         in case maybeSpawnEnemies now s2 r of (s3, r1) \<Rightarrow>
            let s4 = updateEnemies dt s3 in
            case resolveOrbCollection s4 r1 of (s5, r2) \<Rightarrow>
            let s6 = resolveEnemyCollisions s5;
                s7 = scaleDifficultyOnScore s6
            in (s7, r2)))"

text \<open>The state in which \<^verbatim>\<open>startGame\<close> calls \<^verbatim>\<open>loop(performance.now())\<close>.\<close>

definition startGame_pre :: "state \<Rightarrow> rng \<Rightarrow> state \<times> rng" where
  "startGame_pre s r = resetRunState (s\<lparr> phase := Play, running := True \<rparr>) r"

definition startGame :: "real \<Rightarrow> state \<Rightarrow> rng \<Rightarrow> state \<times> rng" where
  "startGame now s r = (case startGame_pre s r of (s1, r1) \<Rightarrow> loop now s1 r1)"

text \<open>The state in which the resume branch of \<^verbatim>\<open>togglePause\<close> calls
  \<^verbatim>\<open>loop(performance.now())\<close>.\<close>

definition resume_pre :: "state \<Rightarrow> state" where
  "resume_pre s = s\<lparr> phase := Play, running := True \<rparr>"

definition togglePause :: "real \<Rightarrow> state \<Rightarrow> rng \<Rightarrow> state \<times> rng" where
  "togglePause now s r =
     (if phase s = Play then (showOverlayScreen (s\<lparr> phase := Pause, running := False \<rparr>), r)
      else if phase s = Pause then loop now (resume_pre s) r
      else (s, r))"

subsection \<open>Start-up and event handlers\<close>

definition updateBounds :: "real \<Rightarrow> real \<Rightarrow> state \<Rightarrow> state" where
  "updateBounds rw rh s = s\<lparr> bounds := (bounds s)\<lparr> b_w := rw, b_h := rh \<rparr> \<rparr>"

text \<open>
  \<^verbatim>\<open>loadPersisted\<close>. The first argument is \<^verbatim>\<open>Number(localStorage.getItem(...))\<close>,
  \<open>None\<close> when that is NaN, so that \<^verbatim>\<open>|| 0\<close> gives 0 for NaN and for 0. The second
  is the parsed settings object, \<open>None\<close> when it is absent or unreadable.
\<close>

definition loadPersisted :: "real option \<Rightarrow> (bool \<times> bool \<times> bool) option \<Rightarrow> state \<Rightarrow> state" where
  "loadPersisted stored saved s =
     (let b = (case stored of None \<Rightarrow> 0 | Some v \<Rightarrow> v);
          s1 = s\<lparr> difficulty := (difficulty s)\<lparr> best := b \<rparr> \<rparr>
      in case saved of
           None \<Rightarrow> s1
         | Some (snd_on, red, mf) \<Rightarrow>
             s1\<lparr> settings := (settings s1)\<lparr> sound := snd_on, reducedMotion := red,
                                              mouseFollow := mf \<rparr> \<rparr>)"

definition init :: "real \<Rightarrow> real \<Rightarrow> real option \<Rightarrow> (bool \<times> bool \<times> bool) option \<Rightarrow> state" where
  "init rw rh stored saved =
     showOverlayScreen
       ((loadPersisted stored saved (initEnemyPool (updateBounds rw rh state0)))\<lparr> phase := Start \<rparr>)"

text \<open>
  \<^verbatim>\<open>e.key.toLowerCase()\<close> as far as \<^verbatim>\<open>setKey\<close> tells keys apart: \<open>KeyP\<close> is 'p',
  \<open>KeyUp\<close> is 'arrowup' or 'w', \<open>KeyDown\<close> is 'arrowdown' or 's', \<open>KeyLeft\<close> is
  'arrowleft' or 'a', \<open>KeyRight\<close> is 'arrowright' or 'd', \<open>KeySpace\<close> is ' '.
\<close>

datatype key = KeyP | KeyUp | KeyDown | KeyLeft | KeyRight | KeySpace | KeyOther

definition setKey :: "key \<Rightarrow> bool \<Rightarrow> real \<Rightarrow> state \<Rightarrow> rng \<Rightarrow> state \<times> rng" where
  "setKey k isDown now s r =
     (if k = KeyP \<and> isDown then togglePause now s r
      else if phase s \<noteq> Play then (s, r)
      else
        (let i0 = input s;
             i1 = (if k = KeyUp then i0\<lparr> up := isDown \<rparr> else i0);
             i2 = (if k = KeyDown then i1\<lparr> down := isDown \<rparr> else i1);
             i3 = (if k = KeyLeft then i2\<lparr> left := isDown \<rparr> else i2);
             i4 = (if k = KeyRight then i3\<lparr> right := isDown \<rparr> else i3);
             i5 = (if k = KeySpace \<and> isDown then i4\<lparr> i_dash := True \<rparr> else i4)
         in (s\<lparr> input := i5 \<rparr>, r)))"

text \<open>
  Everything that can happen to \<^verbatim>\<open>state\<close> after \<^verbatim>\<open>init()\<close>: the listeners the script
  registers and the animation-frame callback. A timestamp argument is the value of
  \<^verbatim>\<open>performance.now()\<close>, or the frame time, at the event. \<open>ClickStart\<close> stands for
  the Start, Restart and Play-again buttons, which all call \<^verbatim>\<open>startGame\<close>;
  \<open>ClickPause\<close> for the Pause and Resume buttons; \<open>ClickSettings\<close> for both
  settings buttons.
\<close>

datatype event =
    KeyEvent key bool real
  | MouseMove real real
  | ToggleSound bool
  | ToggleReducedMotion bool
  | ToggleMouseFollow bool
  | ClickStart real
  | ClickHow
  | ClickBackFromHow
  | ClickPause real
  | ClickSettings
  | ClickBackFromSettings
  | Resize real real
  | Frame real

fun handle :: "event \<Rightarrow> state \<times> rng \<Rightarrow> state \<times> rng" where
  "handle (KeyEvent k isDown now) (s, r) = setKey k isDown now s r"
| "handle (MouseMove mx my) (s, r) =
     (s\<lparr> input := (input s)\<lparr> mouseX := mx, mouseY := my, hasMouse := True \<rparr> \<rparr>, r)"
| "handle (ToggleSound b) (s, r) = (s\<lparr> settings := (settings s)\<lparr> sound := b \<rparr> \<rparr>, r)"
| "handle (ToggleReducedMotion b) (s, r) =
     (s\<lparr> settings := (settings s)\<lparr> reducedMotion := b \<rparr> \<rparr>, r)"
| "handle (ToggleMouseFollow b) (s, r) =
     (s\<lparr> settings := (settings s)\<lparr> mouseFollow := b \<rparr> \<rparr>, r)"
| "handle (ClickStart now) (s, r) = startGame now s r"
| "handle ClickHow (s, r) = (showOverlayScreen (s\<lparr> phase := How \<rparr>), r)"
| "handle ClickBackFromHow (s, r) = (showOverlayScreen (s\<lparr> phase := Start \<rparr>), r)"
| "handle (ClickPause now) (s, r) = togglePause now s r"
| "handle ClickSettings (s, r) = (showOverlayScreen (s\<lparr> phase := Settings \<rparr>), r)"
| "handle ClickBackFromSettings (s, r) = (showOverlayScreen (s\<lparr> phase := Pause \<rparr>), r)"
| "handle (Resize rw rh) (s, r) = placeOrb (updateBounds rw rh s) r"
| "handle (Frame now) (s, r) = loop now s r"

fun run_events :: "event list \<Rightarrow> state \<times> rng \<Rightarrow> state \<times> rng" where
  "run_events [] c = c"
| "run_events (ev # evs) c = run_events evs (handle ev c)"

text \<open>The three operations on the pool: a spawn call, a tick, a reset.\<close>

datatype pool_op = Spawn real | Tick real | Reset

fun pool_step :: "pool_op \<Rightarrow> state \<times> rng \<Rightarrow> state \<times> rng" where
  "pool_step (Spawn now) (s, r) = spawnEnemy now s r"
| "pool_step (Tick dt) (s, r) = (updateEnemies dt s, r)"
| "pool_step Reset (s, r) = resetRunState s r"

fun pool_run :: "pool_op list \<Rightarrow> state \<times> rng \<Rightarrow> state \<times> rng" where
  "pool_run [] c = c"
| "pool_run (x # xs) c = pool_run xs (pool_step x c)"

subsection \<open>Predicates and comparison definitions used in the statements\<close>

text \<open>The test of lines 743--745: the slot is active and its box overlaps the player's.\<close>

definition enemyHits :: "player_state \<Rightarrow> enemy \<Rightarrow> bool" where
  "enemyHits p e =
     (active e \<and> aabbCollide (p_x p) (p_y p) (p_size p) (e_x e) (e_y e) (e_size e))"

text \<open>
  Type selection as the specification words it, for comparison with \<open>chooseType\<close>:
  one draw decides fast, a separate draw decides heavy, and heavy wins when both
  conditions hold. The thresholds are the script's.
\<close>

definition chooseType_two_draws :: "int \<Rightarrow> real \<Rightarrow> real \<Rightarrow> enemy_type" where
  "chooseType_two_draws lvl fastDraw heavyDraw =
     (if lvl \<ge> 6 \<and> heavyDraw > 0.86 then Heavy
      else if lvl \<ge> 4 \<and> fastDraw < 0.25 then Fast
      else Normal)"

text \<open>
  What one operation may do to the best score, from the state before to the state
  after: leave it as it is, or raise it to the score of a game that is now over.
\<close>

definition bestWrite :: "state \<Rightarrow> state \<Rightarrow> bool" where
  "bestWrite s s' =
     (best (difficulty s') = best (difficulty s)
      \<or> (phase s' = Over
          \<and> best (difficulty s') = real_of_int (score (difficulty s'))
          \<and> best (difficulty s) < best (difficulty s')))"

text \<open>Slot \<open>k\<close> is occupied and the spawn timer was restarted at \<open>now\<close>: what a
  spawn that found slot \<open>k\<close> free leaves behind.\<close>

definition spawned :: "real \<Rightarrow> nat \<Rightarrow> state \<Rightarrow> bool" where
  "spawned now k s =
     (k < length (enemies s) \<and> active (enemies s ! k) \<and> lastSpawnAt (difficulty s) = now)"

subsection \<open>Concrete states and draws\<close>

text \<open>A running game on an 800 by 600 playfield with an empty pool of 22 slots.\<close>

definition st_play :: state where
  "st_play = (initEnemyPool (updateBounds 800 600 state0))\<lparr> phase := Play, running := True \<rparr>"

definition rnd_half :: rng where
  "rnd_half = (\<lambda>n. 1 / 2)"

definition rnd_fast_heavy :: rng where
  "rnd_fast_heavy = (\<lambda>n. if n = 0 then 0.1 else 0.9)"

definition st_pickup :: state where
  "st_pickup = st_play\<lparr> orb := \<lparr> o_x = 210, o_y = 205, o_size = 18 \<rparr> \<rparr>"

definition st_overshoot :: state where
  "st_overshoot = st_play\<lparr> difficulty := (difficulty st_play)\<lparr> score := 1000 \<rparr> \<rparr>"

definition st_level6 :: state where
  "st_level6 = st_play\<lparr> difficulty := (difficulty st_play)\<lparr> level := 6 \<rparr> \<rparr>"

definition active_enemy :: enemy where
  "active_enemy =
     \<lparr> active = True, e_x = 100, e_y = 100, e_vx = 1, e_vy = 0, e_size = 18, e_type = Normal \<rparr>"

definition hit_enemy :: enemy where
  "hit_enemy =
     \<lparr> active = True, e_x = 210, e_y = 205, e_vx = 1, e_vy = 0, e_size = 18, e_type = Normal \<rparr>"

definition st_full :: state where
  "st_full = st_play\<lparr> enemies := replicate 22 active_enemy \<rparr>"

definition st_two_hits :: state where
  "st_two_hits =
     st_play\<lparr> enemies := [inactive_enemy, hit_enemy, active_enemy, hit_enemy]
                           @ replicate 18 inactive_enemy \<rparr>"

text \<open>The player at rest with the dash key pressed.\<close>

definition st_dash :: state where
  "st_dash = st_play\<lparr> input := (input st_play)\<lparr> i_dash := True \<rparr> \<rparr>"



text \<open>
  One life left, score 500, best 100, two enemies on the player, the last spawn at 900
  and the last frame at 1000; \<open>st_mid\<close> is that state once the frame at 1016 has
  written its timestamp.
\<close>

definition st_last_life :: state where
  "st_last_life =
     st_two_hits\<lparr> difficulty := (difficulty st_two_hits)\<lparr> lives := 1, score := 500, best := 100,
                                                          lastSpawnAt := 900 \<rparr>,
                  time := \<lparr> lastFrame = 1000 \<rparr> \<rparr>"

definition st_mid :: state where
  "st_mid = st_last_life\<lparr> time := (time st_last_life)\<lparr> lastFrame := 1016 \<rparr> \<rparr>"

text \<open>The saturated pool \<open>st_full\<close> after a hit has freed slot 2.\<close>

definition st_freed :: state where
  "st_freed =
     st_play\<lparr> enemies := [active_enemy, active_enemy, active_enemy\<lparr> active := False \<rparr>]
                           @ replicate 19 active_enemy \<rparr>"

section \<open>Properties\<close>

subsection \<open>Orb placement changes the orb only\<close>

lemma placeOrb_loop_frame:
  "fst (placeOrb_loop k s r) = s\<lparr> orb := orb (fst (placeOrb_loop k s r)) \<rparr>"
  by (induction k arbitrary: r)
     (simp_all add: placeOrb_fallback_def Let_def split: prod.splits)

lemma placeOrb_frame: "fst (placeOrb s r) = s\<lparr> orb := orb (fst (placeOrb s r)) \<rparr>"
  unfolding placeOrb_def by (rule placeOrb_loop_frame)

lemma placeOrb_difficulty [simp]: "difficulty (fst (placeOrb s r)) = difficulty s"
  by (subst placeOrb_frame) simp

lemma placeOrb_enemies [simp]: "enemies (fst (placeOrb s r)) = enemies s"
  by (subst placeOrb_frame) simp

lemma placeOrb_time [simp]: "time (fst (placeOrb s r)) = time s"
  by (subst placeOrb_frame) simp

lemma placeOrb_phase [simp]: "phase (fst (placeOrb s r)) = phase s"
  by (subst placeOrb_frame) simp

lemma placeOrb_running [simp]: "running (fst (placeOrb s r)) = running s"
  by (subst placeOrb_frame) simp

lemma placeOrb_player [simp]: "player (fst (placeOrb s r)) = player s"
  by (subst placeOrb_frame) simp

lemma placeOrb_settings [simp]: "settings (fst (placeOrb s r)) = settings s"
  by (subst placeOrb_frame) simp

subsection \<open>The pool scan\<close>

lemma find_inactive_None: "find_inactive es = None \<longleftrightarrow> (\<forall>e \<in> set es. active e)"
  by (induction es) auto

lemma find_inactive_Some:
  "find_inactive es = Some k \<Longrightarrow> k < length es \<and> \<not> active (es ! k) \<and> (\<forall>j<k. active (es ! j))"
proof (induction es arbitrary: k)
  case Nil
  then show ?case by simp
next
  case (Cons e es)
  show ?case
  proof (cases "active e")
    case False
    with Cons.prems show ?thesis by simp
  next
    case True
    with Cons.prems obtain k' where k': "find_inactive es = Some k'" "k = Suc k'"
      by auto
    from Cons.IH [OF k'(1)] True k'(2) show ?thesis
      by (auto simp: less_Suc_eq_0_disj)
  qed
qed

lemma num_active_le: "num_active es \<le> length es"
  by (simp add: num_active_def)

lemma spawnEnemy_length [simp]: "length (enemies (fst (spawnEnemy now s r))) = length (enemies s)"
  by (simp add: spawnEnemy_def Let_def split: option.splits prod.splits)

lemma spawnEnemy_full: "find_inactive (enemies s) = None \<Longrightarrow> spawnEnemy now s r = (s, r)"
  by (simp add: spawnEnemy_def Let_def)

lemma updateEnemies_length [simp]: "length (enemies (updateEnemies dt s)) = length (enemies s)"
  by (simp add: updateEnemies_def)

lemma resetRunState_length [simp]: "length (enemies (fst (resetRunState s r))) = length (enemies s)"
  by (simp add: resetRunState_def Let_def)

lemma pool_step_length: "length (enemies (fst (pool_step x c))) = length (enemies (fst c))"
  by (cases x; cases c) simp_all

lemma pool_run_length: "length (enemies (fst (pool_run xs c))) = length (enemies (fst c))"
  by (induction xs arbitrary: c) (simp_all add: pool_step_length)

lemma init_pool_length: "length (enemies (initEnemyPool state0)) = 22"
  by (simp add: initEnemyPool_def state0_def)

lemma st_full_saturated: "find_inactive (enemies st_full) = None"
  by (simp add: find_inactive_None st_full_def active_enemy_def)

subsection \<open>Orb pickup\<close>

lemma resolveOrb_difficulty:
  "difficulty (fst (resolveOrbCollection s r)) =
     (if aabbCollide (p_x (player s)) (p_y (player s)) (p_size (player s))
           (o_x (orb s)) (o_y (orb s)) (o_size (orb s))
      then (difficulty s)\<lparr> combo := combo (difficulty s) + 1,
              score := score (difficulty s) + (20 + min 30 ((combo (difficulty s) + 1) * 2)) \<rparr>
      else difficulty s)"
  by (simp add: resolveOrbCollection_def Let_def)

lemma st_pickup_overlap:
  "aabbCollide (p_x (player st_pickup)) (p_y (player st_pickup)) (p_size (player st_pickup))
     (o_x (orb st_pickup)) (o_y (orb st_pickup)) (o_size (orb st_pickup))"
  by (simp add: st_pickup_def st_play_def state0_def initEnemyPool_def updateBounds_def
      aabbCollide_def)

text \<open>
  Claim C1, as amended. On an orb pickup (the player's box overlaps the orb's),
  \<^verbatim>\<open>resolveOrbCollection\<close> first increments the combo and then adds
  \<open>20 + min 30 (combo * 2)\<close> for the incremented combo: the score gained is
  \<open>20 + min 30 ((c + 1) * 2)\<close> where \<open>c\<close> is the combo before the pickup.
\<close>

theorem pickup_gain_after_increment:
  assumes "aabbCollide (p_x (player s)) (p_y (player s)) (p_size (player s))
             (o_x (orb s)) (o_y (orb s)) (o_size (orb s))"
  shows "combo (difficulty (fst (resolveOrbCollection s r))) = combo (difficulty s) + 1
       \<and> score (difficulty (fst (resolveOrbCollection s r)))
           = score (difficulty s) + (20 + min 30 ((combo (difficulty s) + 1) * 2))"
  using assms by (simp add: resolveOrb_difficulty)

text \<open>The first pickup of a run (combo 0, score 0) brings the combo to 1 and the score to 22.\<close>

theorem pickup_gain_after_increment_witness:
  "aabbCollide (p_x (player st_pickup)) (p_y (player st_pickup)) (p_size (player st_pickup))
     (o_x (orb st_pickup)) (o_y (orb st_pickup)) (o_size (orb st_pickup))
   \<and> combo (difficulty (fst (resolveOrbCollection st_pickup rnd_half))) = 1
   \<and> score (difficulty (fst (resolveOrbCollection st_pickup rnd_half))) = 22"
proof -
  note h = st_pickup_overlap
  from pickup_gain_after_increment [OF h, of rnd_half] h show ?thesis
    by (simp add: st_pickup_def st_play_def state0_def initEnemyPool_def updateBounds_def)
qed

text \<open>
  Claim C1 as stated fails: with combo 0 before the pickup the score gained is 22, while
  \<open>20 + min 30 (combo * 2)\<close> for the combo before the increment is 20.
\<close>

theorem pickup_gain_counterexample:
  "aabbCollide (p_x (player st_pickup)) (p_y (player st_pickup)) (p_size (player st_pickup))
     (o_x (orb st_pickup)) (o_y (orb st_pickup)) (o_size (orb st_pickup))
   \<and> combo (difficulty st_pickup) = 0
   \<and> score (difficulty (fst (resolveOrbCollection st_pickup rnd_half)))
       - score (difficulty st_pickup) = 22
   \<and> 20 + min 30 (combo (difficulty st_pickup) * 2) = 20"
  by (simp add: resolveOrb_difficulty st_pickup_def st_play_def state0_def initEnemyPool_def
      updateBounds_def aabbCollide_def)

subsection \<open>Pool capacity\<close>

text \<open>
  Claim C2. Starting from the initialised pool, after any sequence of spawn, tick and
  reset operations the pool still has its 22 slots and at most 22 of them are active;
  and a spawn call that finds no inactive slot returns the state (and the stream of
  draws) as it received them, so no field of any slot changes.
\<close>

theorem pool_never_exceeds_capacity:
  "length (enemies (fst (pool_run ops (initEnemyPool state0, r)))) = 22
   \<and> num_active (enemies (fst (pool_run ops (initEnemyPool state0, r)))) \<le> 22
   \<and> (find_inactive (enemies s) = None \<longrightarrow> spawnEnemy now s r' = (s, r'))"
proof -
  have len: "length (enemies (fst (pool_run ops (initEnemyPool state0, r)))) = 22"
    by (simp add: pool_run_length init_pool_length)
  have "num_active (enemies (fst (pool_run ops (initEnemyPool state0, r)))) \<le> 22"
    using num_active_le [of "enemies (fst (pool_run ops (initEnemyPool state0, r)))"] len
    by simp
  with len show ?thesis by (simp add: spawnEnemy_full)
qed

theorem pool_never_exceeds_capacity_witness:
  "num_active (enemies (fst (pool_run [Spawn 1000, Tick 16, Reset, Spawn 2000]
                               (initEnemyPool state0, rnd_half)))) \<le> 22
   \<and> num_active (enemies st_full) = 22
   \<and> find_inactive (enemies st_full) = None
   \<and> spawnEnemy 1000 st_full rnd_half = (st_full, rnd_half)"
proof -
  have n: "num_active (enemies st_full) = 22"
    by (simp add: num_active_def st_full_def active_enemy_def)
  from pool_never_exceeds_capacity
         [of "[Spawn 1000, Tick 16, Reset, Spawn 2000]" rnd_half st_full 1000 rnd_half]
       st_full_saturated n
  show ?thesis by simp
qed

subsection \<open>Difficulty scaling\<close>

text \<open>
  Claim C3. One call of \<^verbatim>\<open>scaleDifficultyOnScore\<close> changes the level if and only if
  \<open>score \<ge> nextLevelAt\<close>; the level rises by at most one per call, whatever the
  score; on a level-up the level rises by exactly 1, \<open>nextLevelAt\<close> becomes
  \<open>\<lfloor>nextLevelAt * 1.35 + 120\<rfloor>\<close>, \<open>enemyBaseSpeed\<close> becomes
  \<open>min 4.2 (enemyBaseSpeed + 0.15)\<close> and \<open>spawnIntervalMs\<close> becomes
  \<open>max 420 (spawnIntervalMs - 40)\<close>; below the threshold the state is unchanged.
\<close>

theorem scaleDifficulty_one_level_per_check:
  fixes s :: state
  shows "(level (difficulty (scaleDifficultyOnScore s)) \<noteq> level (difficulty s)
            \<longleftrightarrow> score (difficulty s) \<ge> nextLevelAt (difficulty s))
       \<and> level (difficulty (scaleDifficultyOnScore s)) \<le> level (difficulty s) + 1
       \<and> (score (difficulty s) \<ge> nextLevelAt (difficulty s) \<longrightarrow>
            level (difficulty (scaleDifficultyOnScore s)) = level (difficulty s) + 1
          \<and> nextLevelAt (difficulty (scaleDifficultyOnScore s))
              = \<lfloor>real_of_int (nextLevelAt (difficulty s)) * 1.35 + 120\<rfloor>
          \<and> enemyBaseSpeed (difficulty (scaleDifficultyOnScore s))
              = min 4.2 (enemyBaseSpeed (difficulty s) + 0.15)
          \<and> spawnIntervalMs (difficulty (scaleDifficultyOnScore s))
              = max 420 (spawnIntervalMs (difficulty s) - 40)
          \<and> score (difficulty (scaleDifficultyOnScore s)) = score (difficulty s))
       \<and> (score (difficulty s) < nextLevelAt (difficulty s) \<longrightarrow> scaleDifficultyOnScore s = s)"
  by (simp add: scaleDifficultyOnScore_def Let_def)

text \<open>
  With score 1000 at level 1 (threshold 200) one check gives level 2 and threshold 390,
  although the score is above the new threshold too; with score 0 nothing changes.
\<close>

theorem scaleDifficulty_one_level_per_check_witness:
  "nextLevelAt (difficulty st_overshoot) \<le> score (difficulty st_overshoot)
   \<and> level (difficulty st_overshoot) = 1
   \<and> level (difficulty (scaleDifficultyOnScore st_overshoot)) = 2
   \<and> nextLevelAt (difficulty (scaleDifficultyOnScore st_overshoot)) = 390
   \<and> nextLevelAt (difficulty (scaleDifficultyOnScore st_overshoot))
        \<le> score (difficulty (scaleDifficultyOnScore st_overshoot))
   \<and> enemyBaseSpeed (difficulty (scaleDifficultyOnScore st_overshoot)) = 1.85
   \<and> spawnIntervalMs (difficulty (scaleDifficultyOnScore st_overshoot)) = 910
   \<and> score (difficulty st_play) < nextLevelAt (difficulty st_play)
   \<and> scaleDifficultyOnScore st_play = st_play"
proof -
  have d: "difficulty st_overshoot = (difficulty state0)\<lparr> score := 1000 \<rparr>"
    by (simp add: st_overshoot_def st_play_def initEnemyPool_def updateBounds_def)
  have d0: "difficulty st_play = difficulty state0"
    by (simp add: st_play_def initEnemyPool_def updateBounds_def)
  from scaleDifficulty_one_level_per_check [of st_overshoot]
       scaleDifficulty_one_level_per_check [of st_play]
  show ?thesis
    by (simp add: d d0 state0_def)
qed

subsection \<open>Enemy collisions\<close>

lemma firstHit_Some:
  "firstHit p es = Some k \<longleftrightarrow>
     k < length es \<and> enemyHits p (es ! k) \<and> (\<forall>j<k. \<not> enemyHits p (es ! j))"
proof (induction es arbitrary: k)
  case Nil
  show ?case by simp
next
  case (Cons e es)
  show ?case
  proof (cases "enemyHits p e")
    case True
    then have "firstHit p (e # es) = Some 0" by (simp add: enemyHits_def)
    moreover have "(k < length (e # es) \<and> enemyHits p ((e # es) ! k)
        \<and> (\<forall>j<k. \<not> enemyHits p ((e # es) ! j))) \<longleftrightarrow> k = 0"
      using True by (cases k) auto
    ultimately show ?thesis by auto
  next
    case False
    then have fh: "firstHit p (e # es) = map_option Suc (firstHit p es)"
      by (auto simp: enemyHits_def)
    show ?thesis
    proof (cases k)
      case 0
      with False fh show ?thesis by auto
    next
      case (Suc k')
      have "(\<forall>j<Suc k'. \<not> enemyHits p ((e # es) ! j)) \<longleftrightarrow> (\<forall>j<k'. \<not> enemyHits p (es ! j))"
        using False by (auto simp: less_Suc_eq_0_disj)
      with Suc fh Cons.IH [of k'] show ?thesis by auto
    qed
  qed
qed

lemma endGame_enemies [simp]: "enemies (endGame s) = enemies s"
  by (simp add: endGame_def showOverlayScreen_def Let_def)

lemma endGame_lives [simp]: "lives (difficulty (endGame s)) = lives (difficulty s)"
  by (simp add: endGame_def showOverlayScreen_def Let_def)

lemma endGame_combo [simp]: "combo (difficulty (endGame s)) = combo (difficulty s)"
  by (simp add: endGame_def showOverlayScreen_def Let_def)

lemma st_two_hits_player: "player st_two_hits = player state0"
  by (simp add: st_two_hits_def st_play_def initEnemyPool_def updateBounds_def)

text \<open>
  Claim C4. When slot \<open>k\<close> is the first slot in pool order that is active and overlaps
  the player, one call of \<^verbatim>\<open>resolveEnemyCollisions\<close> deactivates slot \<open>k\<close> and
  nothing else in the pool, lowers \<open>lives\<close> by exactly 1 and sets \<open>combo\<close> to 0; every
  other slot, overlapping or not, is as it was.
\<close>

theorem one_hit_per_call:
  assumes "k < length (enemies s)"
    and "enemyHits (player s) (enemies s ! k)"
    and "\<forall>j<k. \<not> enemyHits (player s) (enemies s ! j)"
  shows "enemies (resolveEnemyCollisions s) = (enemies s)[k := (enemies s ! k)\<lparr> active := False \<rparr>]
       \<and> lives (difficulty (resolveEnemyCollisions s)) = lives (difficulty s) - 1
       \<and> combo (difficulty (resolveEnemyCollisions s)) = 0
       \<and> (\<forall>j. j \<noteq> k \<longrightarrow> enemies (resolveEnemyCollisions s) ! j = enemies s ! j)"
proof -
  from assms have "firstHit (player s) (enemies s) = Some k"
    by (simp add: firstHit_Some)
  then show ?thesis
    by (simp add: resolveEnemyCollisions_def Let_def)
qed

text \<open>
  Slots 1 and 3 both overlap the player: slot 1 is deactivated, slot 3 stays active,
  and the lives go from 3 to 2.
\<close>

theorem one_hit_per_call_witness:
  "enemyHits (player st_two_hits) (enemies st_two_hits ! 1)
   \<and> enemyHits (player st_two_hits) (enemies st_two_hits ! 3)
   \<and> enemies (resolveEnemyCollisions st_two_hits)
       = [inactive_enemy, hit_enemy\<lparr> active := False \<rparr>, active_enemy, hit_enemy]
           @ replicate 18 inactive_enemy
   \<and> lives (difficulty st_two_hits) = 3
   \<and> lives (difficulty (resolveEnemyCollisions st_two_hits)) = 2
   \<and> combo (difficulty (resolveEnemyCollisions st_two_hits)) = 0"
proof -
  have es: "enemies st_two_hits =
      [inactive_enemy, hit_enemy, active_enemy, hit_enemy] @ replicate 18 inactive_enemy"
    by (simp add: st_two_hits_def)
  have h1: "enemyHits (player st_two_hits) (enemies st_two_hits ! 1)"
    by (simp add: es st_two_hits_player state0_def enemyHits_def hit_enemy_def aabbCollide_def)
  have h3: "enemyHits (player st_two_hits) (enemies st_two_hits ! 3)"
    by (simp add: es st_two_hits_player state0_def enemyHits_def hit_enemy_def aabbCollide_def
        nth_append numeral_3_eq_3)
  have len: "(1::nat) < length (enemies st_two_hits)"
    by (simp add: es)
  have h0: "\<forall>j<(1::nat). \<not> enemyHits (player st_two_hits) (enemies st_two_hits ! j)"
    by (simp add: es enemyHits_def inactive_enemy_def)
  have l: "lives (difficulty st_two_hits) = 3"
    by (simp add: st_two_hits_def st_play_def initEnemyPool_def updateBounds_def state0_def)
  from one_hit_per_call [OF len h1 h0] h1 h3 l show ?thesis
    by (simp add: es)
qed

subsection \<open>Enemy type selection\<close>

lemma spawnEnemy_type:
  assumes "find_inactive (enemies s) = Some k"
  shows "e_type (enemies (fst (spawnEnemy now s r)) ! k) = chooseType (level (difficulty s)) (r 0)"
proof -
  from find_inactive_Some [OF assms] have "k < length (enemies s)" by simp
  with assms show ?thesis
    by (simp add: spawnEnemy_def Let_def random_def split: prod.splits)
qed

lemma st_level6_slot: "find_inactive (enemies st_level6) = Some 0"
  by (simp add: st_level6_def st_play_def initEnemyPool_def updateBounds_def state0_def
      inactive_enemy_def numeral_eq_Suc)

text \<open>
  Claim C8, as amended. The type of a spawned enemy is decided by one draw, the first
  of the spawn (\<open>r 0\<close>): below level 4 it is always normal; it is fast exactly when the
  level is at least 4 and the draw is below 0.25; it is heavy exactly when the level is
  at least 6 and the same draw is above 0.86. The two conditions test the same draw and
  never hold together, so no tie between fast and heavy arises.
\<close>

theorem spawn_type_single_roll:
  fixes s :: state and now :: real and r :: rng
  assumes "find_inactive (enemies s) = Some k"
  shows "(level (difficulty s) < 4 \<longrightarrow>
            e_type (enemies (fst (spawnEnemy now s r)) ! k) = Normal)
       \<and> (e_type (enemies (fst (spawnEnemy now s r)) ! k) = Fast
            \<longleftrightarrow> 4 \<le> level (difficulty s) \<and> r 0 < 0.25)
       \<and> (e_type (enemies (fst (spawnEnemy now s r)) ! k) = Heavy
            \<longleftrightarrow> 6 \<le> level (difficulty s) \<and> r 0 > 0.86)
       \<and> \<not> (r 0 < 0.25 \<and> r 0 > 0.86)"
  unfolding spawnEnemy_type [OF assms]
  by (auto simp: chooseType_def Let_def)

text \<open>At level 6 a first draw of 0.1 gives fast, 0.9 gives heavy and 0.5 gives normal.\<close>

theorem spawn_type_single_roll_witness:
  "find_inactive (enemies st_level6) = Some 0
   \<and> e_type (enemies (fst (spawnEnemy 1000 st_level6 rnd_fast_heavy)) ! 0) = Fast
   \<and> e_type (enemies (fst (spawnEnemy 1000 st_level6 (\<lambda>n. 0.9))) ! 0) = Heavy
   \<and> e_type (enemies (fst (spawnEnemy 1000 st_level6 rnd_half)) ! 0) = Normal"
  using spawn_type_single_roll [OF st_level6_slot, of 1000 rnd_fast_heavy]
    spawn_type_single_roll [OF st_level6_slot, of 1000 "\<lambda>n. 0.9"]
    spawn_type_single_roll [OF st_level6_slot, of 1000 rnd_half]
    st_level6_slot
  apply (simp add: rnd_fast_heavy_def rnd_half_def st_level6_def)
  by (metis enemy_type.exhaust)

text \<open>
  Claim C8 as stated fails. At level 6 let the first draw of the spawn be 0.1 (below
  the fast threshold) and the second 0.9 (above the heavy threshold). With separate
  draws for fast and heavy, and heavy overriding fast, the type would be heavy; the
  script tests the first draw twice and spawns a fast enemy (its second draw picks the
  edge).
\<close>

theorem spawn_type_counterexample:
  "e_type (enemies (fst (spawnEnemy 1000 st_level6 rnd_fast_heavy)) ! 0) = Fast
   \<and> chooseType_two_draws (level (difficulty st_level6)) (rnd_fast_heavy 0) (rnd_fast_heavy 1)
       = Heavy"
proof -
  have "e_type (enemies (fst (spawnEnemy 1000 st_level6 rnd_fast_heavy)) ! 0)
          = chooseType (level (difficulty st_level6)) (rnd_fast_heavy 0)"
    by (rule spawnEnemy_type [OF st_level6_slot])
  then show ?thesis
    by (simp add: chooseType_def chooseType_two_draws_def rnd_fast_heavy_def st_level6_def Let_def)
qed

subsection \<open>A saturated pool\<close>

lemma maybeSpawn_full:
  assumes "find_inactive (enemies s) = None"
  shows "fst (maybeSpawnEnemies now s r) = s"
  using assms
  by (simp add: maybeSpawnEnemies_def spawnEnemy_full split: prod.splits)

subsection \<open>The velocity after the dash\<close>

lemma updatePlayer_velocity:
  assumes "playerAccel s = (ax, ay)"
    and "player (dashStep now (s\<lparr> player := (player s)\<lparr> p_vx := p_vx (player s) + ax * (dt / 16.67),
                                 p_vy := p_vy (player s) + ay * (dt / 16.67) \<rparr> \<rparr>)) = p"
  shows "p_vx (player (updatePlayer dt now s)) = clamp (p_vx p * friction p) (- maxSpeed p) (maxSpeed p)"
    and "p_vy (player (updatePlayer dt now s)) = clamp (p_vy p * friction p) (- maxSpeed p) (maxSpeed p)"
  using assms by (simp_all add: updatePlayer_def Let_def)

lemma sqrt_small: "sqrt (0.001 * 0.001 + 0.001 * 0.001) \<le> (0.0015::real)"
  by (rule real_le_lsqrt) (simp_all add: power2_eq_square)

lemma sqrt_small_lo: "(0.001::real) \<le> sqrt (0.001 * 0.001 + 0.001 * 0.001)"
  by (rule real_le_rsqrt) (simp add: power2_eq_square)

lemma st_dash_player: "player st_dash = player state0"
  by (simp add: st_dash_def st_play_def initEnemyPool_def updateBounds_def)

lemma st_dash_input: "input st_dash = (input state0)\<lparr> i_dash := True \<rparr>"
  by (simp add: st_dash_def st_play_def initEnemyPool_def updateBounds_def)

lemma st_dash_settings: "settings st_dash = settings state0"
  by (simp add: st_dash_def st_play_def initEnemyPool_def updateBounds_def)

lemma st_dash_accel: "playerAccel st_dash = (0, 0)"
  by (simp add: playerAccel_def Let_def st_dash_player st_dash_input st_dash_settings state0_def)

lemma dash_from_rest:
  "p_vx (player (updatePlayer (16.67) 1000 st_dash)) = 5.2
   \<and> p_vy (player (updatePlayer (16.67) 1000 st_dash)) = 5.2"
proof -
  define len :: real where "len = max 0.001 (sqrt (0.001 * 0.001 + 0.001 * 0.001))"
  have len: "0.001 \<le> len" "len \<le> 0.0015"
    using sqrt_small sqrt_small_lo by (simp_all add: len_def)
  then have pos: "0 < len" by simp
  have "0.001 / len \<ge> 0.001 / 0.0015"
    using len pos by (intro divide_left_mono) simp_all
  then have big: "0.001 / len * 9 * 0.88 \<ge> 5.2" by simp
  define p where "p = (player state0)\<lparr> p_vx := 0.001 / len * 9, p_vy := 0.001 / len * 9,
                       p_dash := (p_dash (player state0))\<lparr> lastDashAt := 1000 \<rparr> \<rparr>"
  have dp: "player (dashStep 1000 (st_dash\<lparr> player := (player st_dash)\<lparr>
               p_vx := p_vx (player st_dash) + 0 * (16.67 / 16.67),
               p_vy := p_vy (player st_dash) + 0 * (16.67 / 16.67) \<rparr> \<rparr>)) = p"
    by (simp add: dashStep_def Let_def st_dash_player st_dash_input state0_def p_def len_def)
  have pf: "friction p = 0.88" "maxSpeed p = 5.2" "p_vx p = 0.001 / len * 9" "p_vy p = 0.001 / len * 9"
    by (simp_all add: p_def state0_def)
  from big have "clamp (0.001 / len * 9 * 0.88) (- 5.2) 5.2 = 5.2"
    by (simp add: clamp_def)
  with updatePlayer_velocity [OF st_dash_accel dp] pf show ?thesis by simp
qed

subsection \<open>What a spawn can change\<close>

lemma spawnEnemy_shape:
  "\<exists>es t. fst (spawnEnemy now s r) = s\<lparr> enemies := es, difficulty := (difficulty s)\<lparr> lastSpawnAt := t \<rparr> \<rparr>"
proof (cases "find_inactive (enemies s)")
  case None
  then have "fst (spawnEnemy now s r)
      = s\<lparr> enemies := enemies s, difficulty := (difficulty s)\<lparr> lastSpawnAt := lastSpawnAt (difficulty s) \<rparr> \<rparr>"
    by (simp add: spawnEnemy_full)
  then show ?thesis by blast
next
  case (Some k)
  then show ?thesis
    by (simp add: spawnEnemy_def Let_def split: prod.splits) blast
qed

lemma maybeSpawn_shape:
  "\<exists>es t. fst (maybeSpawnEnemies now s r) = s\<lparr> enemies := es, difficulty := (difficulty s)\<lparr> lastSpawnAt := t \<rparr> \<rparr>"
proof -
  have keep: "\<exists>es t. s = s\<lparr> enemies := es, difficulty := (difficulty s)\<lparr> lastSpawnAt := t \<rparr> \<rparr>"
  proof -
    have "s = s\<lparr> enemies := enemies s, difficulty := (difficulty s)\<lparr> lastSpawnAt := lastSpawnAt (difficulty s) \<rparr> \<rparr>"
      by simp
    then show ?thesis by blast
  qed
  have step: "\<exists>es t. fst (spawnEnemy now s' r') = s\<lparr> enemies := es, difficulty := (difficulty s)\<lparr> lastSpawnAt := t \<rparr> \<rparr>"
    if "\<exists>es t. s' = s\<lparr> enemies := es, difficulty := (difficulty s)\<lparr> lastSpawnAt := t \<rparr> \<rparr>" for s' r'
  proof -
    from that obtain es t where s': "s' = s\<lparr> enemies := es, difficulty := (difficulty s)\<lparr> lastSpawnAt := t \<rparr> \<rparr>"
      by blast
    from spawnEnemy_shape [of now s' r'] obtain es' t' where
      "fst (spawnEnemy now s' r') = s'\<lparr> enemies := es', difficulty := (difficulty s')\<lparr> lastSpawnAt := t' \<rparr> \<rparr>"
      by blast
    then have "fst (spawnEnemy now s' r') = s\<lparr> enemies := es', difficulty := (difficulty s)\<lparr> lastSpawnAt := t' \<rparr> \<rparr>"
      by (simp add: s')
    then show ?thesis by blast
  qed
  show ?thesis
  proof (cases "spawnDue now s")
    case False
    with keep show ?thesis by (simp add: maybeSpawnEnemies_def)
  next
    case True
    define c1 where "c1 = spawnEnemy now s r"
    define c2 where "c2 = (if level (difficulty (fst c1)) \<ge> 7
              then (if fst (random (snd c1)) < 0.30 then spawnEnemy now (fst c1) (snd (random (snd c1)))
                      else (fst c1, snd (random (snd c1))))
              else c1)"
    define c3 where "c3 = (if level (difficulty (fst c2)) \<ge> 10
        then (if fst (random (snd c2)) < 0.18 then spawnEnemy now (fst c2) (snd (random (snd c2)))
              else (fst c2, snd (random (snd c2))))
        else c2)"
    have m: "maybeSpawnEnemies now s r = c3"
      using True by (simp add: maybeSpawnEnemies_def c1_def c2_def c3_def split: prod.splits)
    have s1: "\<exists>es t. fst c1 = s\<lparr> enemies := es, difficulty := (difficulty s)\<lparr> lastSpawnAt := t \<rparr> \<rparr>"
      unfolding c1_def by (rule step [OF keep])
    have s2: "\<exists>es t. fst c2 = s\<lparr> enemies := es, difficulty := (difficulty s)\<lparr> lastSpawnAt := t \<rparr> \<rparr>"
      unfolding c2_def using s1 step [OF s1] by simp
    have s3: "\<exists>es t. fst c3 = s\<lparr> enemies := es, difficulty := (difficulty s)\<lparr> lastSpawnAt := t \<rparr> \<rparr>"
      unfolding c3_def using s2 step [OF s2] by simp
    with m show ?thesis by simp
  qed
qed

subsection \<open>What the systems of a frame leave unchanged\<close>

lemma maybeSpawn_time [simp]: "time (fst (maybeSpawnEnemies now s r)) = time s"
  using maybeSpawn_shape [of now s r] by auto

lemma maybeSpawn_phase [simp]: "phase (fst (maybeSpawnEnemies now s r)) = phase s"
  using maybeSpawn_shape [of now s r] by auto

lemma maybeSpawn_player [simp]: "player (fst (maybeSpawnEnemies now s r)) = player s"
  using maybeSpawn_shape [of now s r] by auto

lemma maybeSpawn_best [simp]:
  "best (difficulty (fst (maybeSpawnEnemies now s r))) = best (difficulty s)"
  using maybeSpawn_shape [of now s r] by auto

lemma dashStep_other [simp]:
  "difficulty (dashStep now s) = difficulty s"
  "phase (dashStep now s) = phase s"
  "time (dashStep now s) = time s"
  "maxSpeed (player (dashStep now s)) = maxSpeed (player s)"
  by (simp_all add: dashStep_def Let_def)

lemma updatePlayer_other [simp]:
  "difficulty (updatePlayer dt now s) = difficulty s"
  "phase (updatePlayer dt now s) = phase s"
  "time (updatePlayer dt now s) = time s"
  "maxSpeed (player (updatePlayer dt now s)) = maxSpeed (player s)"
  by (simp_all add: updatePlayer_def Let_def split: prod.splits)

lemma updateEnemies_other [simp]:
  "difficulty (updateEnemies dt s) = difficulty s"
  "phase (updateEnemies dt s) = phase s"
  "time (updateEnemies dt s) = time s"
  "player (updateEnemies dt s) = player s"
  by (simp_all add: updateEnemies_def)

lemma resolveOrb_other [simp]:
  "phase (fst (resolveOrbCollection s r)) = phase s"
  "time (fst (resolveOrbCollection s r)) = time s"
  "player (fst (resolveOrbCollection s r)) = player s"
  "best (difficulty (fst (resolveOrbCollection s r))) = best (difficulty s)"
  by (simp_all add: resolveOrbCollection_def Let_def)

lemma endGame_other [simp]:
  "time (endGame s) = time s"
  "player (endGame s) = player s"
  "phase (endGame s) = Over"
  "score (difficulty (endGame s)) = score (difficulty s)"
  "best (difficulty (endGame s)) = max (best (difficulty s)) (real_of_int (score (difficulty s)))"
  by (simp_all add: endGame_def showOverlayScreen_def Let_def)

lemma resolveEnemy_other [simp]:
  "time (resolveEnemyCollisions s) = time s"
  "maxSpeed (player (resolveEnemyCollisions s)) = maxSpeed (player s)"
  by (simp_all add: resolveEnemyCollisions_def Let_def split: option.splits)

lemma resolveEnemy_best: "bestWrite s (resolveEnemyCollisions s)"
  by (auto simp add: bestWrite_def resolveEnemyCollisions_def Let_def max_def split: option.splits)

lemma scale_other [simp]:
  "time (scaleDifficultyOnScore s) = time s"
  "phase (scaleDifficultyOnScore s) = phase s"
  "player (scaleDifficultyOnScore s) = player s"
  "best (difficulty (scaleDifficultyOnScore s)) = best (difficulty s)"
  "score (difficulty (scaleDifficultyOnScore s)) = score (difficulty s)"
  by (simp_all add: scaleDifficultyOnScore_def Let_def)

lemma resetRunState_other [simp]:
  "time (fst (resetRunState s r)) = time s"
  "phase (fst (resetRunState s r)) = phase s"
  "running (fst (resetRunState s r)) = running s"
  "best (difficulty (fst (resetRunState s r))) = best (difficulty s)"
  "maxSpeed (player (fst (resetRunState s r))) = maxSpeed (player s)"
  by (simp_all add: resetRunState_def Let_def)

text \<open>The frame as a chain of states.\<close>

lemma loop_fst:
  "fst (loop now s r) =
     (if phase s \<noteq> Play \<or> \<not> running s then s
      else scaleDifficultyOnScore (resolveEnemyCollisions (fst (resolveOrbCollection
             (updateEnemies (frameDt now s)
                (fst (maybeSpawnEnemies now
                   (updatePlayer (frameDt now s) now (s\<lparr> time := (time s)\<lparr> lastFrame := now \<rparr> \<rparr>)) r)))
             (snd (maybeSpawnEnemies now
                   (updatePlayer (frameDt now s) now (s\<lparr> time := (time s)\<lparr> lastFrame := now \<rparr> \<rparr>)) r))))))"
  by (simp add: loop_def Let_def split: prod.splits)


lemma loop_maxSpeed [simp]: "maxSpeed (player (fst (loop now s r))) = maxSpeed (player s)"
  by (simp add: loop_fst)

lemma loop_best: "bestWrite s (fst (loop now s r))"
proof (cases "phase s \<noteq> Play \<or> \<not> running s")
  case True
  then show ?thesis by (simp add: loop_fst bestWrite_def)
next
  case False
  define s5 where "s5 = fst (resolveOrbCollection
             (updateEnemies (frameDt now s)
                (fst (maybeSpawnEnemies now
                   (updatePlayer (frameDt now s) now (s\<lparr> time := (time s)\<lparr> lastFrame := now \<rparr> \<rparr>)) r)))
             (snd (maybeSpawnEnemies now
                   (updatePlayer (frameDt now s) now (s\<lparr> time := (time s)\<lparr> lastFrame := now \<rparr> \<rparr>)) r)))"
  have b5: "best (difficulty s5) = best (difficulty s)"
    by (simp add: s5_def)
  have l: "fst (loop now s r) = scaleDifficultyOnScore (resolveEnemyCollisions s5)"
    using False by (simp add: loop_fst s5_def)
  from resolveEnemy_best [of s5] b5 show ?thesis
    by (simp add: l bestWrite_def)
qed

subsection \<open>Player velocity\<close>

lemma clamp_abs: "0 \<le> m \<Longrightarrow> \<bar>clamp v (- m) m\<bar> \<le> m"
  by (simp add: clamp_def abs_le_iff)

lemma updatePlayer_clamped:
  assumes "0 \<le> maxSpeed (player s)"
  shows "\<bar>p_vx (player (updatePlayer dt now s))\<bar> \<le> maxSpeed (player s)"
    and "\<bar>p_vy (player (updatePlayer dt now s))\<bar> \<le> maxSpeed (player s)"
proof -
  obtain ax ay where a: "playerAccel s = (ax, ay)" by (cases "playerAccel s")
  define p where "p = player (dashStep now (s\<lparr> player := (player s)\<lparr>
      p_vx := p_vx (player s) + ax * (dt / 16.67),
      p_vy := p_vy (player s) + ay * (dt / 16.67) \<rparr> \<rparr>))"
  have m: "maxSpeed p = maxSpeed (player s)" by (simp add: p_def)
  note v = updatePlayer_velocity [OF a p_def [symmetric]]
  show "\<bar>p_vx (player (updatePlayer dt now s))\<bar> \<le> maxSpeed (player s)"
    unfolding v(1) m by (rule clamp_abs [OF assms])
  show "\<bar>p_vy (player (updatePlayer dt now s))\<bar> \<le> maxSpeed (player s)"
    unfolding v(2) m by (rule clamp_abs [OF assms])
qed

lemma togglePause_maxSpeed [simp]:
  "maxSpeed (player (fst (togglePause now s r))) = maxSpeed (player s)"
  by (simp add: togglePause_def showOverlayScreen_def resume_pre_def)

lemma startGame_fst:
  "fst (startGame now s r) = fst (loop now (fst (startGame_pre s r)) (snd (startGame_pre s r)))"
  by (simp add: startGame_def split: prod.splits)

lemma startGame_pre_other [simp]:
  "time (fst (startGame_pre s r)) = time s"
  "phase (fst (startGame_pre s r)) = Play"
  "running (fst (startGame_pre s r)) = True"
  "best (difficulty (fst (startGame_pre s r))) = best (difficulty s)"
  "maxSpeed (player (fst (startGame_pre s r))) = maxSpeed (player s)"
  by (simp_all add: startGame_pre_def)

lemma startGame_maxSpeed [simp]:
  "maxSpeed (player (fst (startGame now s r))) = maxSpeed (player s)"
  by (simp add: startGame_fst)

lemma setKey_maxSpeed [simp]:
  "maxSpeed (player (fst (setKey k isDown now s r))) = maxSpeed (player s)"
  by (simp add: setKey_def Let_def)

lemma handle_maxSpeed: "maxSpeed (player (fst (handle ev (s, r)))) = maxSpeed (player s)"
  by (cases ev) (simp_all add: showOverlayScreen_def updateBounds_def)

lemma run_events_maxSpeed:
  "maxSpeed (player (fst (run_events evs c))) = maxSpeed (player (fst c))"
proof (induction evs arbitrary: c)
  case Nil
  show ?case by simp
next
  case (Cons ev evs)
  obtain s r where c: "c = (s, r)" by (cases c)
  show ?case by (simp add: Cons.IH c handle_maxSpeed)
qed

lemma init_maxSpeed: "maxSpeed (player (init rw rh stored saved)) = 5.2"
  by (simp add: init_def showOverlayScreen_def loadPersisted_def initEnemyPool_def
      updateBounds_def state0_def Let_def split: option.splits)

text \<open>
  Claim C5. With \<open>maxSpeed = 5.2\<close>, after \<^verbatim>\<open>updatePlayer\<close> each velocity component
  lies in \<open>[-5.2, 5.2]\<close>, for every elapsed time, timestamp and input, a successful dash
  included: the clamp runs after the dash and the friction. And \<open>maxSpeed\<close> is 5.2 in
  every state that a sequence of events reaches after \<^verbatim>\<open>init()\<close>.
\<close>

theorem velocity_components_clamped:
  "(maxSpeed (player s) = 5.2 \<longrightarrow>
       - 5.2 \<le> p_vx (player (updatePlayer dt now s))
     \<and> p_vx (player (updatePlayer dt now s)) \<le> 5.2
     \<and> - 5.2 \<le> p_vy (player (updatePlayer dt now s))
     \<and> p_vy (player (updatePlayer dt now s)) \<le> 5.2)
   \<and> maxSpeed (player (fst (run_events evs (init rw rh stored saved, r)))) = 5.2"
proof -
  have "- 5.2 \<le> p_vx (player (updatePlayer dt now s))
     \<and> p_vx (player (updatePlayer dt now s)) \<le> 5.2
     \<and> - 5.2 \<le> p_vy (player (updatePlayer dt now s))
     \<and> p_vy (player (updatePlayer dt now s)) \<le> 5.2" if m: "maxSpeed (player s) = 5.2"
  proof -
    from m have "0 \<le> maxSpeed (player s)" by simp
    from updatePlayer_clamped [OF this, of dt now] m show ?thesis
      by (simp add: abs_le_iff) linarith
  qed
  then show ?thesis
    by (simp add: run_events_maxSpeed init_maxSpeed)
qed

text \<open>A dash from rest: the burst of 9 is clamped to 5.2 on each axis.\<close>

theorem velocity_components_clamped_witness:
  "maxSpeed (player st_dash) = 5.2
   \<and> - 5.2 \<le> p_vx (player (updatePlayer (16.67) 1000 st_dash))
   \<and> p_vx (player (updatePlayer (16.67) 1000 st_dash)) \<le> 5.2
   \<and> - 5.2 \<le> p_vy (player (updatePlayer (16.67) 1000 st_dash))
   \<and> p_vy (player (updatePlayer (16.67) 1000 st_dash)) \<le> 5.2"
proof -
  have m: "maxSpeed (player st_dash) = 5.2"
    by (simp add: st_dash_player state0_def)
  from velocity_components_clamped [of st_dash "16.67" 1000 "[]" 800 600 None None rnd_half] m
  show ?thesis by blast
qed

text \<open>
  Claim C6, as amended. The clamp is per component, so after \<^verbatim>\<open>updatePlayer\<close> the
  Euclidean magnitude of the velocity is at most \<open>maxSpeed * sqrt 2\<close> (about 7.35 for
  \<open>maxSpeed = 5.2\<close>).
\<close>

theorem speed_magnitude_bound:
  assumes "0 \<le> maxSpeed (player s)"
  shows "sqrt ((p_vx (player (updatePlayer dt now s)))\<^sup>2
             + (p_vy (player (updatePlayer dt now s)))\<^sup>2)
           \<le> maxSpeed (player s) * sqrt 2"
proof -
  define m where "m = maxSpeed (player s)"
  define vx where "vx = p_vx (player (updatePlayer dt now s))"
  define vy where "vy = p_vy (player (updatePlayer dt now s))"
  from updatePlayer_clamped [OF assms, of dt now]
  have b: "\<bar>vx\<bar> \<le> m" "\<bar>vy\<bar> \<le> m"
    by (simp_all add: m_def vx_def vy_def)
  have m0: "0 \<le> m" using assms by (simp add: m_def)
  from b have "vx\<^sup>2 \<le> m\<^sup>2" "vy\<^sup>2 \<le> m\<^sup>2"
    using m0 by (simp_all add: abs_le_square_iff [symmetric])
  then have "vx\<^sup>2 + vy\<^sup>2 \<le> 2 * m\<^sup>2" by simp
  then have "sqrt (vx\<^sup>2 + vy\<^sup>2) \<le> sqrt (2 * m\<^sup>2)"
    by (rule real_sqrt_le_mono)
  also have "sqrt (2 * m\<^sup>2) = m * sqrt 2"
    using m0 by (simp add: real_sqrt_mult)
  finally show ?thesis by (simp add: m_def vx_def vy_def)
qed

theorem speed_magnitude_bound_witness:
  "0 \<le> maxSpeed (player st_dash)
   \<and> sqrt ((p_vx (player (updatePlayer (16.67) 1000 st_dash)))\<^sup>2
           + (p_vy (player (updatePlayer (16.67) 1000 st_dash)))\<^sup>2)
         \<le> maxSpeed (player st_dash) * sqrt 2"
proof -
  have m: "0 \<le> maxSpeed (player st_dash)"
    by (simp add: st_dash_player state0_def)
  from speed_magnitude_bound [OF m, of "16.67" 1000] m show ?thesis by blast
qed

lemma st_dash_reached: "fst (setKey KeySpace True 990 st_play rnd_half) = st_dash"
  by (simp add: setKey_def Let_def st_dash_def st_play_def)

text \<open>
  Claim C6 as stated fails. The space key pressed in a running game with the player at
  rest gives \<open>st_dash\<close>. A dash from rest takes the direction \<open>(0.001, 0.001)\<close>;
  after the burst, the friction and the clamp both components are 5.2, and the
  magnitude \<open>sqrt (5.2\<^sup>2 + 5.2\<^sup>2)\<close> is above 5.2.
\<close>

theorem speed_magnitude_counterexample:
  "fst (setKey KeySpace True 990 st_play rnd_half) = st_dash
   \<and> maxSpeed (player st_dash) = 5.2
   \<and> p_vx (player (updatePlayer (16.67) 1000 st_dash)) = 5.2
   \<and> p_vy (player (updatePlayer (16.67) 1000 st_dash)) = 5.2
   \<and> sqrt ((p_vx (player (updatePlayer (16.67) 1000 st_dash)))\<^sup>2
          + (p_vy (player (updatePlayer (16.67) 1000 st_dash)))\<^sup>2) > 5.2"
proof -
  have big: "(5.2::real) < sqrt (5.2\<^sup>2 + 5.2\<^sup>2)"
    by (rule real_less_rsqrt) simp
  have m: "maxSpeed (player st_dash) = 5.2"
    by (simp add: st_dash_player state0_def)
  from dash_from_rest have vx: "p_vx (player (updatePlayer (16.67) 1000 st_dash)) = 5.2"
    and vy: "p_vy (player (updatePlayer (16.67) 1000 st_dash)) = 5.2"
    by blast+
  show ?thesis unfolding vx vy using m big st_dash_reached by blast
qed

subsection \<open>The frame timestamp across pause and game over\<close>











subsection \<open>Best score\<close>

lemma bestWrite_refl: "bestWrite s s"
  by (simp add: bestWrite_def)

lemma bestWrite_le: "bestWrite s s' \<Longrightarrow> best (difficulty s) \<le> best (difficulty s')"
  by (auto simp: bestWrite_def)

lemma bestWrite_pre:
  "best (difficulty s1) = best (difficulty s) \<Longrightarrow> bestWrite s1 s' \<Longrightarrow> bestWrite s s'"
  by (simp add: bestWrite_def)

lemma togglePause_best: "bestWrite s (fst (togglePause now s r))"
proof -
  have "bestWrite s (fst (loop now (resume_pre s) r))"
    by (rule bestWrite_pre [OF _ loop_best]) (simp add: resume_pre_def)
  then show ?thesis
    by (simp add: togglePause_def bestWrite_def showOverlayScreen_def)
qed

lemma startGame_best: "bestWrite s (fst (startGame now s r))"
  unfolding startGame_fst by (rule bestWrite_pre [OF _ loop_best]) simp

lemma setKey_best: "bestWrite s (fst (setKey k isDown now s r))"
  using togglePause_best [of s now r]
  by (simp add: setKey_def Let_def bestWrite_def)

lemma handle_best: "bestWrite s (fst (handle ev (s, r)))"
proof (cases ev)
  case (KeyEvent k isDown now)
  then show ?thesis by (simp add: setKey_best)
next
  case (ClickStart now)
  then show ?thesis by (simp add: startGame_best)
next
  case (ClickPause now)
  then show ?thesis by (simp add: togglePause_best)
next
  case (Frame now)
  then show ?thesis by (simp add: loop_best)
qed (simp_all add: bestWrite_def showOverlayScreen_def updateBounds_def)

lemma run_events_best:
  "best (difficulty (fst c)) \<le> best (difficulty (fst (run_events evs c)))"
proof (induction evs arbitrary: c)
  case Nil
  show ?case by simp
next
  case (Cons ev evs)
  obtain s r where c: "c = (s, r)" by (cases c)
  have "best (difficulty s) \<le> best (difficulty (fst (handle ev (s, r))))"
    by (rule bestWrite_le [OF handle_best])
  also have "\<dots> \<le> best (difficulty (fst (run_events evs (handle ev (s, r)))))"
    by (rule Cons.IH)
  finally show ?case by (simp add: c)
qed

text \<open>
  Claim C10. Over any sequence of events after start-up the best score never
  decreases. Each event either leaves it unchanged or ends the game and raises it to
  the final score; \<^verbatim>\<open>endGame\<close> sets it to the maximum of the old best and the score;
  reset, orb pickup and level-up leave it unchanged, and an enemy hit changes it only
  through \<^verbatim>\<open>endGame\<close>. (\<^verbatim>\<open>loadPersisted\<close> sets the value the session starts with.)
\<close>

theorem best_never_decreases:
  "best (difficulty s) \<le> best (difficulty (fst (run_events evs (s, r))))
   \<and> bestWrite s (fst (handle ev (s, r)))
   \<and> best (difficulty (endGame s)) = max (best (difficulty s)) (real_of_int (score (difficulty s)))
   \<and> best (difficulty (fst (resetRunState s r))) = best (difficulty s)
   \<and> best (difficulty (fst (resolveOrbCollection s r))) = best (difficulty s)
   \<and> best (difficulty (scaleDifficultyOnScore s)) = best (difficulty s)
   \<and> bestWrite s (resolveEnemyCollisions s)"
  using run_events_best [of "(s, r)" evs] handle_best [of s ev r] resolveEnemy_best [of s]
  by simp

lemma st_last_life_difficulty:
  "difficulty st_last_life =
     (difficulty state0)\<lparr> lives := 1, score := 500, best := 100, lastSpawnAt := 900 \<rparr>"
  by (simp add: st_last_life_def st_two_hits_def st_play_def initEnemyPool_def updateBounds_def)

lemma st_last_life_hit: "firstHit (player st_last_life) (enemies st_last_life) = Some 1"
  by (simp add: st_last_life_def st_two_hits_def st_play_def initEnemyPool_def updateBounds_def
      state0_def inactive_enemy_def hit_enemy_def aabbCollide_def)

lemma st_last_life_game_over:
  "phase (resolveEnemyCollisions st_last_life) = Over
   \<and> best (difficulty (resolveEnemyCollisions st_last_life)) = 500"
  by (simp add: resolveEnemyCollisions_def st_last_life_hit Let_def st_last_life_difficulty
      state0_def)

text \<open>A whole frame, system by system, from \<open>st_last_life\<close> at time 1016.\<close>

lemma st_last_life_fields:
  "phase st_last_life = Play"
  "running st_last_life = True"
  "time st_last_life = \<lparr> lastFrame = 1000 \<rparr>"
  by (simp_all add: st_last_life_def st_two_hits_def st_play_def initEnemyPool_def updateBounds_def)

lemma st_mid_fields:
  "bounds st_mid = \<lparr> b_w = 800, b_h = 600 \<rparr>"
  "player st_mid = player state0"
  "orb st_mid = orb state0"
  "enemies st_mid = [inactive_enemy, hit_enemy, active_enemy, hit_enemy] @ replicate 18 inactive_enemy"
  "difficulty st_mid =
     (difficulty state0)\<lparr> lives := 1, score := 500, best := 100, lastSpawnAt := 900 \<rparr>"
  "input st_mid = input state0"
  "settings st_mid = settings state0"
  by (simp_all add: st_mid_def st_last_life_def st_two_hits_def st_play_def initEnemyPool_def
      updateBounds_def)

lemma keep_player: "player s = p \<Longrightarrow> s\<lparr> player := p \<rparr> = s"
  by auto

lemma st_mid_updatePlayer: "updatePlayer 16 1016 st_mid = st_mid"
proof -
  have a: "playerAccel st_mid = (0, 0)"
    by (simp add: playerAccel_def st_mid_fields state0_def Let_def)
  have s1: "st_mid\<lparr> player := (player st_mid)\<lparr>
              p_vx := p_vx (player st_mid) + 0 * (16 / 16.67),
              p_vy := p_vy (player st_mid) + 0 * (16 / 16.67) \<rparr> \<rparr> = st_mid"
    by (rule keep_player) (simp add: st_mid_fields state0_def)
  have d: "dashStep 1016 st_mid = st_mid"
    by (simp add: dashStep_def st_mid_fields state0_def)
  have "updatePlayer 16 1016 st_mid =
      st_mid\<lparr> player := (player st_mid)\<lparr>
        p_vx := clamp (p_vx (player st_mid) * friction (player st_mid))
                  (- maxSpeed (player st_mid)) (maxSpeed (player st_mid)),
        p_vy := clamp (p_vy (player st_mid) * friction (player st_mid))
                  (- maxSpeed (player st_mid)) (maxSpeed (player st_mid)),
        p_x := clamp (p_x (player st_mid)
                 + clamp (p_vx (player st_mid) * friction (player st_mid))
                     (- maxSpeed (player st_mid)) (maxSpeed (player st_mid)) * (16 / 16.67))
                 2 (b_w (bounds st_mid) - p_size (player st_mid) - 2),
        p_y := clamp (p_y (player st_mid)
                 + clamp (p_vy (player st_mid) * friction (player st_mid))
                     (- maxSpeed (player st_mid)) (maxSpeed (player st_mid)) * (16 / 16.67))
                 2 (b_h (bounds st_mid) - p_size (player st_mid) - 2) \<rparr> \<rparr>"
    by (simp only: updatePlayer_def a prod.case Let_def s1 d)
  also have "\<dots> = st_mid"
    by (rule keep_player) (simp add: st_mid_fields state0_def clamp_def)
  finally show ?thesis .
qed

lemma st_mid_maybeSpawn: "maybeSpawnEnemies 1016 st_mid r = (st_mid, r)"
  by (simp add: maybeSpawnEnemies_def spawnDue_def st_mid_fields state0_def)

lemma st_mid_tick:
  "enemies (updateEnemies 16 st_mid) =
     [inactive_enemy, hit_enemy\<lparr> e_x := 210 + 16 / 16.67 \<rparr>,
      active_enemy\<lparr> e_x := 100 + 16 / 16.67 \<rparr>, hit_enemy\<lparr> e_x := 210 + 16 / 16.67 \<rparr>]
     @ replicate 18 inactive_enemy"
  by (simp add: updateEnemies_def updateEnemy_def st_mid_fields inactive_enemy_def hit_enemy_def
      active_enemy_def Let_def)

lemma st_mid_no_pickup:
  "resolveOrbCollection (updateEnemies 16 st_mid) r = (updateEnemies 16 st_mid, r)"
  by (simp add: resolveOrbCollection_def updateEnemies_def st_mid_fields state0_def aabbCollide_def)

lemma st_mid_hit:
  "firstHit (player (updateEnemies 16 st_mid)) (enemies (updateEnemies 16 st_mid)) = Some 1"
  by (simp add: st_mid_tick)
     (simp add: updateEnemies_def st_mid_fields state0_def inactive_enemy_def hit_enemy_def
        aabbCollide_def)

lemma st_mid_game_over:
  "phase (resolveEnemyCollisions (updateEnemies 16 st_mid)) = Over
   \<and> best (difficulty (resolveEnemyCollisions (updateEnemies 16 st_mid))) = 500"
  by (simp only: resolveEnemyCollisions_def st_mid_hit option.case)
     (simp add: Let_def updateEnemies_def st_mid_fields state0_def)

lemma frame_ends_game:
  "phase (fst (handle (Frame 1016) (st_last_life, r))) = Over
   \<and> best (difficulty (fst (handle (Frame 1016) (st_last_life, r)))) = 500"
proof -
  have dt: "frameDt 1016 st_last_life = 16"
    by (simp add: frameDt_def clamp_def st_last_life_fields)
  have "fst (loop 1016 st_last_life r)
      = scaleDifficultyOnScore (resolveEnemyCollisions (updateEnemies 16 st_mid))"
    by (simp add: loop_fst st_last_life_fields(1,2) dt st_mid_def [symmetric]
          st_mid_updatePlayer st_mid_maybeSpawn st_mid_no_pickup)
  with st_mid_game_over show ?thesis by simp
qed

text \<open>
  The last life is lost in the frame at 1016: the game is over and the best score goes
  from 100 to the final score 500; a reset keeps it.
\<close>

theorem best_never_decreases_witness:
  "best (difficulty st_last_life) = 100
   \<and> score (difficulty st_last_life) = 500
   \<and> best (difficulty (endGame st_last_life)) = 500
   \<and> phase (resolveEnemyCollisions st_last_life) = Over
   \<and> best (difficulty (resolveEnemyCollisions st_last_life)) = 500
   \<and> best (difficulty (fst (resetRunState st_last_life rnd_half))) = 100
   \<and> phase (fst (handle (Frame 1016) (st_last_life, rnd_half))) = Over
   \<and> best (difficulty (fst (handle (Frame 1016) (st_last_life, rnd_half)))) = 500
   \<and> 100 \<le> best (difficulty (fst (run_events [Frame 1016, ClickStart 5000] (st_last_life, rnd_half))))"
proof -
  note d = st_last_life_difficulty
  from best_never_decreases [of st_last_life "[Frame 1016, ClickStart 5000]" rnd_half "Frame 1016"]
       st_last_life_game_over frame_ends_game [of rnd_half]
  show ?thesis by (simp add: d state0_def)
qed

subsection \<open>A saturated pool: the spawn is attempted on every tick\<close>

lemma spawnEnemy_Some:
  assumes "find_inactive (enemies s) = Some k"
  shows "active (enemies (fst (spawnEnemy now s r)) ! k)"
    and "lastSpawnAt (difficulty (fst (spawnEnemy now s r))) = now"
proof -
  from find_inactive_Some [OF assms] have k: "k < length (enemies s)" by simp
  with assms show "active (enemies (fst (spawnEnemy now s r)) ! k)"
    by (simp add: spawnEnemy_def Let_def split: prod.splits)
  from assms show "lastSpawnAt (difficulty (fst (spawnEnemy now s r))) = now"
    by (simp add: spawnEnemy_def Let_def split: prod.splits)
qed

lemma spawnEnemy_keeps_active:
  assumes "k < length (enemies s)" and "active (enemies s ! k)"
  shows "active (enemies (fst (spawnEnemy now s r)) ! k)"
proof (cases "find_inactive (enemies s)")
  case None
  with assms show ?thesis by (simp add: spawnEnemy_full)
next
  case (Some j)
  from find_inactive_Some [OF Some] assms have "j \<noteq> k" by auto
  with Some assms show ?thesis
    by (simp add: spawnEnemy_def Let_def split: prod.splits)
qed

lemma spawnEnemy_stamp:
  assumes "lastSpawnAt (difficulty s) = now"
  shows "lastSpawnAt (difficulty (fst (spawnEnemy now s r))) = now"
  using assms
  by (cases "find_inactive (enemies s)")
     (simp_all add: spawnEnemy_full spawnEnemy_Some(2))

lemma spawned_again: "spawned now k s \<Longrightarrow> spawned now k (fst (spawnEnemy now s r))"
  by (simp add: spawned_def spawnEnemy_keeps_active spawnEnemy_stamp)

lemma maybeSpawn_due:
  assumes due: "spawnDue now s" and slot: "find_inactive (enemies s) = Some k"
  shows "spawned now k (fst (maybeSpawnEnemies now s r))"
proof -
  define c1 where "c1 = spawnEnemy now s r"
  define c2 where "c2 = (if level (difficulty (fst c1)) \<ge> 7
            then (if fst (random (snd c1)) < 0.30 then spawnEnemy now (fst c1) (snd (random (snd c1)))
                    else (fst c1, snd (random (snd c1))))
            else c1)"
  define c3 where "c3 = (if level (difficulty (fst c2)) \<ge> 10
      then (if fst (random (snd c2)) < 0.18 then spawnEnemy now (fst c2) (snd (random (snd c2)))
            else (fst c2, snd (random (snd c2))))
      else c2)"
  have m: "maybeSpawnEnemies now s r = c3"
    using due by (simp add: maybeSpawnEnemies_def c1_def c2_def c3_def split: prod.splits)
  from find_inactive_Some [OF slot] have "k < length (enemies s)" by simp
  then have p1: "spawned now k (fst c1)"
    unfolding c1_def spawned_def using spawnEnemy_Some [OF slot, of now r] by simp
  have p2: "spawned now k (fst c2)"
    unfolding c2_def using p1 spawned_again [OF p1] by simp
  have p3: "spawned now k (fst c3)"
    unfolding c3_def using p2 spawned_again [OF p2] by simp
  with m show ?thesis by simp
qed

lemma updatePlayer_enemies [simp]: "enemies (updatePlayer dt now s) = enemies s"
  by (simp add: updatePlayer_def dashStep_def Let_def split: prod.splits)

lemma resolveOrb_timer [simp]:
  "lastSpawnAt (difficulty (fst (resolveOrbCollection s r))) = lastSpawnAt (difficulty s)"
  "spawnIntervalMs (difficulty (fst (resolveOrbCollection s r))) = spawnIntervalMs (difficulty s)"
  by (simp_all add: resolveOrb_difficulty)

lemma resolveEnemy_timer [simp]:
  "lastSpawnAt (difficulty (resolveEnemyCollisions s)) = lastSpawnAt (difficulty s)"
  "spawnIntervalMs (difficulty (resolveEnemyCollisions s)) = spawnIntervalMs (difficulty s)"
  by (simp_all add: resolveEnemyCollisions_def endGame_def showOverlayScreen_def Let_def
      split: option.splits)

lemma scale_timer:
  "lastSpawnAt (difficulty (scaleDifficultyOnScore s)) = lastSpawnAt (difficulty s)"
  "420 \<le> spawnIntervalMs (difficulty s) \<Longrightarrow>
     spawnIntervalMs (difficulty (scaleDifficultyOnScore s)) \<le> spawnIntervalMs (difficulty s)"
  by (simp_all add: scaleDifficultyOnScore_def Let_def)

lemma maybeSpawn_interval [simp]:
  "spawnIntervalMs (difficulty (fst (maybeSpawnEnemies now s r))) = spawnIntervalMs (difficulty s)"
  using maybeSpawn_shape [of now s r] by auto

text \<open>The timer fields after a frame, in terms of the frame's call of \<^verbatim>\<open>maybeSpawnEnemies\<close>.\<close>

lemma loop_timer:
  assumes "phase s = Play" and "running s"
  shows "lastSpawnAt (difficulty (fst (loop now s r)))
           = lastSpawnAt (difficulty (fst (maybeSpawnEnemies now
               (updatePlayer (frameDt now s) now (s\<lparr> time := (time s)\<lparr> lastFrame := now \<rparr> \<rparr>)) r)))"
  using assms by (simp add: loop_fst scale_timer(1))

lemma loop_saturated_stamp:
  assumes "find_inactive (enemies s) = None"
  shows "lastSpawnAt (difficulty (fst (loop now s r))) = lastSpawnAt (difficulty s)"
proof (cases "phase s = Play \<and> running s")
  case False
  then show ?thesis by (auto simp: loop_fst)
next
  case True
  have "find_inactive (enemies (updatePlayer (frameDt now s) now
          (s\<lparr> time := (time s)\<lparr> lastFrame := now \<rparr> \<rparr>))) = None"
    using assms by simp
  from maybeSpawn_full [OF this] True show ?thesis
    by (simp add: loop_timer)
qed

lemma loop_interval:
  assumes "420 \<le> spawnIntervalMs (difficulty s)"
  shows "spawnIntervalMs (difficulty (fst (loop now s r))) \<le> spawnIntervalMs (difficulty s)"
proof (cases "phase s = Play \<and> running s")
  case False
  then show ?thesis by (auto simp: loop_fst)
next
  case True
  define s6 where "s6 = resolveEnemyCollisions (fst (resolveOrbCollection
             (updateEnemies (frameDt now s)
                (fst (maybeSpawnEnemies now
                   (updatePlayer (frameDt now s) now (s\<lparr> time := (time s)\<lparr> lastFrame := now \<rparr> \<rparr>)) r)))
             (snd (maybeSpawnEnemies now
                   (updatePlayer (frameDt now s) now (s\<lparr> time := (time s)\<lparr> lastFrame := now \<rparr> \<rparr>)) r))))"
  have i6: "spawnIntervalMs (difficulty s6) = spawnIntervalMs (difficulty s)"
    by (simp add: s6_def)
  have l: "fst (loop now s r) = scaleDifficultyOnScore s6"
    using True by (simp add: loop_fst s6_def)
  from scale_timer(2) [of s6] assms i6 show ?thesis by (simp add: l)
qed

lemma loop_spawns:
  assumes "phase s = Play" and "running s" and "spawnDue now s"
    and "find_inactive (enemies s) = Some k"
  shows "lastSpawnAt (difficulty (fst (loop now s r))) = now"
proof -
  define s2 where "s2 = updatePlayer (frameDt now s) now (s\<lparr> time := (time s)\<lparr> lastFrame := now \<rparr> \<rparr>)"
  have due: "spawnDue now s2" using assms(3) by (simp add: spawnDue_def s2_def)
  have slot: "find_inactive (enemies s2) = Some k" using assms(4) by (simp add: s2_def)
  from maybeSpawn_due [OF due slot, of r] loop_timer [OF assms(1,2), of now r]
  show ?thesis by (simp add: spawned_def s2_def)
qed

text \<open>
  Claim C9. When every slot of the pool is active, \<^verbatim>\<open>spawnEnemy\<close> returns the state
  unchanged (and draws no random number), so \<open>lastSpawnAt\<close> keeps its value, and
  \<^verbatim>\<open>maybeSpawnEnemies\<close> leaves the state unchanged as well. If the spawn timer was due
  at \<open>now\<close> it is still due at every later time \<open>now'\<close>, also after a whole frame
  (\<open>lastSpawnAt\<close> is as before the frame; an interval of at least 420, the floor of
  the difficulty scaling, does not grow). And a tick whose timer is due does call \<^verbatim>\<open>spawnEnemy\<close>: for any
  state \<open>s'\<close> whose first free slot is \<open>k\<close>, \<^verbatim>\<open>maybeSpawnEnemies\<close> leaves slot
  \<open>k\<close> active and \<open>lastSpawnAt = now'\<close>; so does a frame of the running game; in
  particular the first tick after a slot of the saturated pool has become free, with
  the timer fields as they were, fills that slot without waiting for a new interval.
\<close>

theorem saturated_spawn_retries:
  assumes "\<forall>e \<in> set (enemies s). active e"
  shows "spawnEnemy now s r = (s, r)
       \<and> fst (maybeSpawnEnemies now s r) = s
       \<and> (spawnDue now s \<and> now \<le> now' \<longrightarrow> spawnDue now' (fst (spawnEnemy now s r)))
       \<and> lastSpawnAt (difficulty (fst (loop now s r))) = lastSpawnAt (difficulty s)
       \<and> (spawnDue now s \<and> now \<le> now' \<and> 420 \<le> spawnIntervalMs (difficulty s) \<longrightarrow>
            spawnDue now' (fst (loop now s r)))
       \<and> (spawnDue now' s' \<and> find_inactive (enemies s') = Some k \<longrightarrow>
            active (enemies (fst (maybeSpawnEnemies now' s' r')) ! k)
          \<and> lastSpawnAt (difficulty (fst (maybeSpawnEnemies now' s' r'))) = now')
       \<and> (spawnDue now s \<and> now \<le> now'
            \<and> lastSpawnAt (difficulty s') = lastSpawnAt (difficulty s)
            \<and> spawnIntervalMs (difficulty s') \<le> spawnIntervalMs (difficulty s)
            \<and> find_inactive (enemies s') = Some k \<longrightarrow>
            active (enemies (fst (maybeSpawnEnemies now' s' r')) ! k))
       \<and> (phase s' = Play \<and> running s' \<and> spawnDue now' s'
            \<and> find_inactive (enemies s') = Some k \<longrightarrow>
            lastSpawnAt (difficulty (fst (loop now' s' r'))) = now')"
proof -
  from assms have full: "find_inactive (enemies s) = None"
    by (simp add: find_inactive_None)
  then have c1: "spawnEnemy now s r = (s, r)" by (rule spawnEnemy_full)
  from full have c2: "fst (maybeSpawnEnemies now s r) = s" by (rule maybeSpawn_full)
  have c3: "spawnDue now' (fst (spawnEnemy now s r))" if "spawnDue now s" "now \<le> now'"
    using that c1 by (simp add: spawnDue_def)
  have c4: "lastSpawnAt (difficulty (fst (loop now s r))) = lastSpawnAt (difficulty s)"
    by (rule loop_saturated_stamp [OF full])
  have c5: "spawnDue now' (fst (loop now s r))"
    if "spawnDue now s" "now \<le> now'" "420 \<le> spawnIntervalMs (difficulty s)"
    using that c4 loop_interval [OF that(3), of now r] by (simp add: spawnDue_def)
  have c6: "active (enemies (fst (maybeSpawnEnemies now' s' r')) ! k)
          \<and> lastSpawnAt (difficulty (fst (maybeSpawnEnemies now' s' r'))) = now'"
    if "spawnDue now' s'" "find_inactive (enemies s') = Some k"
    using maybeSpawn_due [OF that, of r'] by (simp add: spawned_def)
  have c7: "active (enemies (fst (maybeSpawnEnemies now' s' r')) ! k)"
    if "spawnDue now s" "now \<le> now'" "lastSpawnAt (difficulty s') = lastSpawnAt (difficulty s)"
      "spawnIntervalMs (difficulty s') \<le> spawnIntervalMs (difficulty s)"
      "find_inactive (enemies s') = Some k"
  proof -
    from that(1-4) have "spawnDue now' s'" by (simp add: spawnDue_def)
    from c6 [OF this that(5)] show ?thesis by simp
  qed
  have c8: "lastSpawnAt (difficulty (fst (loop now' s' r'))) = now'"
    if "phase s' = Play" "running s'" "spawnDue now' s'" "find_inactive (enemies s') = Some k"
    using that by (rule loop_spawns)
  from c1 c2 c3 c4 c5 c6 c7 c8 show ?thesis by blast
qed

lemma st_freed_slot: "find_inactive (enemies st_freed) = Some 2"
  by (simp add: st_freed_def active_enemy_def numeral_2_eq_2)

lemma st_freed_timer:
  "phase st_freed = Play" "running st_freed"
  "lastSpawnAt (difficulty st_freed) = lastSpawnAt (difficulty st_full)"
  "spawnIntervalMs (difficulty st_freed) = spawnIntervalMs (difficulty st_full)"
  "spawnDue 1016 st_freed"
  by (simp_all add: spawnDue_def st_freed_def st_full_def st_play_def state0_def initEnemyPool_def
      updateBounds_def)

text \<open>
  All 22 slots active: the spawn at 1000 changes nothing, the frame keeps
  \<open>lastSpawnAt = 0\<close> and the timer is due again at 1016. With slot 2 freed, the tick at
  1016 (and the frame at 1016) fills slot 2 and restarts the timer.
\<close>

theorem saturated_spawn_retries_witness:
  "num_active (enemies st_full) = 22
   \<and> length (enemies st_full) = 22
   \<and> spawnEnemy 1000 st_full rnd_half = (st_full, rnd_half)
   \<and> fst (maybeSpawnEnemies 1000 st_full rnd_half) = st_full
   \<and> spawnDue 1000 st_full \<and> spawnDue 1016 (fst (spawnEnemy 1000 st_full rnd_half))
   \<and> lastSpawnAt (difficulty (fst (loop 1000 st_full rnd_half))) = 0
   \<and> spawnDue 1016 (fst (loop 1000 st_full rnd_half))
   \<and> find_inactive (enemies st_freed) = Some 2
   \<and> spawnDue 1016 st_freed
   \<and> active (enemies (fst (maybeSpawnEnemies 1016 st_freed rnd_half)) ! 2)
   \<and> lastSpawnAt (difficulty (fst (maybeSpawnEnemies 1016 st_freed rnd_half))) = 1016
   \<and> lastSpawnAt (difficulty (fst (loop 1016 st_freed rnd_half))) = 1016"
proof -
  have h: "\<forall>e \<in> set (enemies st_full). active e"
    by (simp add: st_full_def active_enemy_def)
  have d: "spawnDue 1000 st_full" "420 \<le> spawnIntervalMs (difficulty st_full)"
    "lastSpawnAt (difficulty st_full) = 0"
    by (simp_all add: spawnDue_def st_full_def st_play_def state0_def initEnemyPool_def
        updateBounds_def)
  have n: "num_active (enemies st_full) = 22" "length (enemies st_full) = 22"
    by (simp_all add: num_active_def st_full_def active_enemy_def)
  from saturated_spawn_retries [OF h, of 1000 rnd_half 1016 st_freed 2 rnd_half]
       n d st_freed_slot st_freed_timer
  show ?thesis by auto
qed

end
